theory Spec2Isabelle
  imports Main "HOL-Library.Word"
begin

unbundle bit_operations_syntax

section \<open>The RDA5807 FM tuner driver (radio-rda5807.c)\<close>

text \<open>
  A shallow embedding of \<^verbatim>\<open>linux-3.4/drivers/media/radio/radio-rda5807.c\<close>.
  C's \<^verbatim>\<open>u16\<close>, \<^verbatim>\<open>u32\<close> and \<^verbatim>\<open>s32\<close> are words of that width; the \<^verbatim>\<open>int\<close>
  status every driver function returns (a negative errno, zero, or a register value)
  is a HOL \<open>int\<close>, since no arithmetic is done on it. Each function takes the state of
  the bus and returns its status together with the state it leaves.
\<close>

type_synonym u8 = "8 word"
type_synonym u16 = "16 word"
type_synonym u32 = "32 word"
type_synonym s32 = "32 word"

subsection \<open>Constants of the kernel headers\<close>

text \<open>The errno values of \<^verbatim>\<open>asm-generic/errno-base.h\<close>, used negated by the driver.\<close>

definition EIO :: int where "EIO = 5"
definition ENOMEM :: int where "ENOMEM = 12"
definition ENODEV :: int where "ENODEV = 19"
definition EINVAL :: int where "EINVAL = 22"
definition ERANGE :: int where "ERANGE = 34"

text \<open>\<^verbatim>\<open>I2C_M_RD\<close> of \<^verbatim>\<open>linux/i2c.h\<close>: the message is a read.\<close>

definition I2C_M_RD :: u16 where "I2C_M_RD = 0x0001"

text \<open>\<^verbatim>\<open>BIT(n)\<close> of \<^verbatim>\<open>linux/bitops.h\<close>, at the width of a register.\<close>

definition BIT :: "nat \<Rightarrow> u16" where "BIT n = push_bit n 1"

subsection \<open>Registers and bit fields (lines 48-90)\<close>

datatype rda5807_reg =
    RDA5807_REG_CHIPID
  | RDA5807_REG_CTRL
  | RDA5807_REG_CHAN
  | RDA5807_REG_IOCFG
  | RDA5807_REG_INTM_THRESH_VOL
  | RDA5807_REG_SEEK_RESULT
  | RDA5807_REG_SIGNAL

text \<open>The number of each enumerator, as the byte \<^verbatim>\<open>__u8 reg_buf = reg\<close> sent on the bus.\<close>

fun reg_num :: "rda5807_reg \<Rightarrow> u8" where
  "reg_num RDA5807_REG_CHIPID = 0x00"
| "reg_num RDA5807_REG_CTRL = 0x02"
| "reg_num RDA5807_REG_CHAN = 0x03"
| "reg_num RDA5807_REG_IOCFG = 0x04"
| "reg_num RDA5807_REG_INTM_THRESH_VOL = 0x05"
| "reg_num RDA5807_REG_SEEK_RESULT = 0x0A"
| "reg_num RDA5807_REG_SIGNAL = 0x0B"

definition RDA5807_MASK_CTRL_DMUTE :: u16 where "RDA5807_MASK_CTRL_DMUTE = BIT 14"
definition RDA5807_MASK_CTRL_ENABLE :: u16 where "RDA5807_MASK_CTRL_ENABLE = BIT 0"

definition RDA5807_SHIFT_CHAN_WRCHAN :: nat where "RDA5807_SHIFT_CHAN_WRCHAN = 6"
definition RDA5807_MASK_CHAN_WRCHAN :: u16 where
  "RDA5807_MASK_CHAN_WRCHAN = push_bit RDA5807_SHIFT_CHAN_WRCHAN 0x3FF"
definition RDA5807_MASK_CHAN_TUNE :: u16 where "RDA5807_MASK_CHAN_TUNE = BIT 4"
definition RDA5807_SHIFT_CHAN_BAND :: nat where "RDA5807_SHIFT_CHAN_BAND = 2"
definition RDA5807_MASK_CHAN_BAND :: u16 where
  "RDA5807_MASK_CHAN_BAND = push_bit RDA5807_SHIFT_CHAN_BAND 0x3"
definition RDA5807_SHIFT_CHAN_SPACE :: nat where "RDA5807_SHIFT_CHAN_SPACE = 0"
definition RDA5807_MASK_CHAN_SPACE :: u16 where
  "RDA5807_MASK_CHAN_SPACE = push_bit RDA5807_SHIFT_CHAN_SPACE 0x3"

definition RDA5807_MASK_SEEKRES_COMPLETE :: u16 where "RDA5807_MASK_SEEKRES_COMPLETE = BIT 14"
definition RDA5807_MASK_SEEKRES_FAIL :: u16 where "RDA5807_MASK_SEEKRES_FAIL = BIT 13"
definition RDA5807_MASK_SEEKRES_STEREO :: u16 where "RDA5807_MASK_SEEKRES_STEREO = BIT 10"

definition RDA5807_MASK_DEEMPHASIS :: u16 where "RDA5807_MASK_DEEMPHASIS = BIT 11"

definition RDA5807_SHIFT_VOLUME_DAC :: nat where "RDA5807_SHIFT_VOLUME_DAC = 0"
definition RDA5807_MASK_VOLUME_DAC :: u16 where
  "RDA5807_MASK_VOLUME_DAC = push_bit RDA5807_SHIFT_VOLUME_DAC 0xF"

definition RDA5807_SHIFT_RSSI :: nat where "RDA5807_SHIFT_RSSI = 9"
definition RDA5807_MASK_RSSI :: u16 where
  "RDA5807_MASK_RSSI = push_bit RDA5807_SHIFT_RSSI 0x7F"

definition RDA5807_FREQ_MIN_KHZ :: u32 where "RDA5807_FREQ_MIN_KHZ = 76000"
definition RDA5807_FREQ_MAX_KHZ :: u32 where "RDA5807_FREQ_MAX_KHZ = 108000"

subsection \<open>The bus\<close>

text \<open>A message of a transfer (\<^verbatim>\<open>struct i2c_msg\<close>). A read carries no bytes out.\<close>

record i2c_msg =
  addr :: u16
  flags :: u16
  len :: nat
  buf :: "u8 list"

text \<open>
  The state behind \<^verbatim>\<open>struct i2c_client\<close>: the address of the chip, the chip's sixteen-bit
  registers and the register its last address byte selected, the results the adapter
  will give to the coming transfers, and the transfers issued so far.
\<close>

record i2c_client =
  client_addr :: u16
  regs :: "u8 \<Rightarrow> u16"
  reg_sel :: u8
  script :: "int list"
  xfers :: "i2c_msg list list"

text \<open>
  Modelled from the spec: the chip's answer to one message, which is hardware and not in
  the source. In random access mode a write of one byte selects a register, a write of
  three bytes stores the last two, high byte first, into the register the first one
  names, and a read of two bytes returns the selected register, high byte first.
\<close>

definition dev_msg :: "i2c_msg \<Rightarrow> i2c_client \<times> u8 list \<Rightarrow> i2c_client \<times> u8 list" where
  "dev_msg m st =
     (let c = fst st in
      if flags m AND I2C_M_RD \<noteq> 0 then
        (if len m = 2
         then (c, [ucast (drop_bit 8 (regs c (reg_sel c))), ucast (regs c (reg_sel c))])
         else (c, replicate (len m) 0))
      else
        (case buf m of
           [r] \<Rightarrow> (c\<lparr>reg_sel := r\<rparr>, snd st)
         | [r, hi, lo] \<Rightarrow>
             (c\<lparr>regs := (regs c)(r := push_bit 8 (ucast hi) OR ucast lo), reg_sel := r\<rparr>,
              snd st)
         | _ \<Rightarrow> st))"

text \<open>
  Modelled from the spec: \<^verbatim>\<open>i2c_transfer\<close> of the kernel's I2C core, which is not in the
  source: "transfer (sequence of messages) gives the count of completed transactions or
  an error". The transfer is logged. With no scripted result left the adapter completes
  every message. A scripted negative result is the error returned, with no message
  completed; a scripted count completes that many of the messages, all of them at most.
  The result is the status, the bytes read, and the state.
\<close>

definition i2c_transfer :: "i2c_client \<Rightarrow> i2c_msg list \<Rightarrow> int \<times> u8 list \<times> i2c_client" where
  "i2c_transfer c msgs =
     (let c1 = c\<lparr>xfers := xfers c @ [msgs]\<rparr> in
      case script c of
        [] \<Rightarrow>
          (let st = fold dev_msg msgs (c1, []) in (int (length msgs), snd st, fst st))
      | r # rs \<Rightarrow>
          (let c2 = c1\<lparr>script := rs\<rparr> in
           if r < 0 then (r, [], c2)
           else
             (let sent = take (nat r) msgs;
                  st = fold dev_msg sent (c2, [])
              in (int (length sent), snd st, fst st))))"

text \<open>\<^verbatim>\<open>be16_to_cpu\<close> on the two bytes of \<^verbatim>\<open>val_buf\<close> as they lie in memory.\<close>

definition be16_to_cpu :: "u8 list \<Rightarrow> u16" where
  "be16_to_cpu bs = (case bs of [b0, b1] \<Rightarrow> push_bit 8 (ucast b0) OR ucast b1 | _ \<Rightarrow> 0)"

subsection \<open>Register access (lines 92-140)\<close>

definition rda5807_i2c_read :: "i2c_client \<Rightarrow> rda5807_reg \<Rightarrow> int \<times> i2c_client" where
  "rda5807_i2c_read client reg =
     (let reg_buf = reg_num reg;
          msgs = [\<lparr>addr = client_addr client, flags = 0, len = 1, buf = [reg_buf]\<rparr>,
                  \<lparr>addr = client_addr client, flags = I2C_M_RD, len = 2, buf = []\<rparr>];
          res = i2c_transfer client msgs;
          err = fst res; val_buf = fst (snd res); client' = snd (snd res)
      in if err < 0 then (err, client')
         else if err < int (length msgs) then (- EIO, client')
         else (uint (be16_to_cpu val_buf), client'))"

definition rda5807_i2c_write :: "i2c_client \<Rightarrow> rda5807_reg \<Rightarrow> u16 \<Rightarrow> int \<times> i2c_client" where
  "rda5807_i2c_write client reg val =
     (let buf' = [reg_num reg, ucast (drop_bit 8 val), ucast (val AND 0xFF)];
          msgs = [\<lparr>addr = client_addr client, flags = 0, len = 3, buf = buf'\<rparr>];
          res = i2c_transfer client msgs;
          err = fst res; client' = snd (snd res)
      in if err < 0 then (err, client')
         else if err < int (length msgs) then (- EIO, client')
         else (0, client'))"

subsection \<open>Read-modify-write (lines 153-166)\<close>

definition rda5807_update_reg ::
  "i2c_client \<Rightarrow> rda5807_reg \<Rightarrow> u16 \<Rightarrow> u16 \<Rightarrow> int \<times> i2c_client" where
  "rda5807_update_reg radio reg msk val =
     (let r = rda5807_i2c_read radio reg; err = fst r in
      if err \<ge> 0 then
        (let val' = val OR ((word_of_int err :: u16) AND NOT msk)
         in rda5807_i2c_write (snd r) reg val')
      else (err, snd r))"

subsection \<open>Constants of the V4L2 headers\<close>

text \<open>
  The control identifiers, tuner flags and pre-emphasis enumerators of
  \<^verbatim>\<open>linux/videodev2.h\<close>, which the driver names but does not define.
\<close>

definition V4L2_CID_AUDIO_VOLUME :: u32 where "V4L2_CID_AUDIO_VOLUME = 0x00980905"
definition V4L2_CID_AUDIO_MUTE :: u32 where "V4L2_CID_AUDIO_MUTE = 0x00980909"
definition V4L2_CID_TUNE_PREEMPHASIS :: u32 where "V4L2_CID_TUNE_PREEMPHASIS = 0x009B0970"

definition V4L2_PREEMPHASIS_DISABLED :: s32 where "V4L2_PREEMPHASIS_DISABLED = 0"
definition V4L2_PREEMPHASIS_50_uS :: s32 where "V4L2_PREEMPHASIS_50_uS = 1"
definition V4L2_PREEMPHASIS_75_uS :: s32 where "V4L2_PREEMPHASIS_75_uS = 2"

definition V4L2_TUNER_RADIO :: u32 where "V4L2_TUNER_RADIO = 1"
definition V4L2_TUNER_CAP_LOW :: u32 where "V4L2_TUNER_CAP_LOW = 0x0001"
definition V4L2_TUNER_CAP_STEREO :: u32 where "V4L2_TUNER_CAP_STEREO = 0x0010"
definition V4L2_TUNER_SUB_MONO :: u32 where "V4L2_TUNER_SUB_MONO = 0x0001"
definition V4L2_TUNER_SUB_STEREO :: u32 where "V4L2_TUNER_SUB_STEREO = 0x0002"
definition V4L2_TUNER_MODE_STEREO :: u32 where "V4L2_TUNER_MODE_STEREO = 0x0001"

text \<open>C's logical negation on an \<^verbatim>\<open>int\<close>.\<close>

definition lnot :: "s32 \<Rightarrow> s32" where
  "lnot x = (if x = 0 then 1 else 0)"

subsection \<open>Control encoders (lines 168-229)\<close>

definition rda5807_set_enable :: "i2c_client \<Rightarrow> s32 \<Rightarrow> int \<times> i2c_client" where
  "rda5807_set_enable radio enabled =
     (let val = (if enabled \<noteq> 0 then RDA5807_MASK_CTRL_ENABLE else 0)
      in rda5807_update_reg radio RDA5807_REG_CTRL RDA5807_MASK_CTRL_ENABLE val)"

definition rda5807_set_mute :: "i2c_client \<Rightarrow> s32 \<Rightarrow> int \<times> i2c_client" where
  "rda5807_set_mute radio muted =
     (let val = (if muted \<noteq> 0 then 0 else RDA5807_MASK_CTRL_DMUTE)
      in rda5807_update_reg radio RDA5807_REG_CTRL RDA5807_MASK_CTRL_DMUTE val)"

definition rda5807_set_volume :: "i2c_client \<Rightarrow> s32 \<Rightarrow> int \<times> i2c_client" where
  "rda5807_set_volume radio volume =
     rda5807_update_reg radio RDA5807_REG_INTM_THRESH_VOL RDA5807_MASK_VOLUME_DAC
       (ucast (push_bit RDA5807_SHIFT_VOLUME_DAC volume))"

definition rda5807_set_preemphasis :: "i2c_client \<Rightarrow> s32 \<Rightarrow> int \<times> i2c_client" where
  "rda5807_set_preemphasis radio preemp =
     rda5807_update_reg radio RDA5807_REG_IOCFG RDA5807_MASK_DEEMPHASIS
       (if preemp = V4L2_PREEMPHASIS_50_uS then RDA5807_MASK_DEEMPHASIS else 0)"

text \<open>
  The mask and the value that \<^verbatim>\<open>rda5807_set_frequency\<close> builds up in its locals
  \<^verbatim>\<open>mask\<close> and \<^verbatim>\<open>val\<close> (lines 204-226), one assignment after the other. The channel
  is computed in \<^verbatim>\<open>u32\<close> and cut to sixteen bits by the assignment to \<^verbatim>\<open>val\<close>.
\<close>

definition rda5807_chan_index :: "u32 \<Rightarrow> u32" where
  "rda5807_chan_index freq_khz = (freq_khz - RDA5807_FREQ_MIN_KHZ + 25) div 50"

definition rda5807_tune_fields :: "u32 \<Rightarrow> u16 \<times> u16" where
  "rda5807_tune_fields freq_khz =
     (let msk = 0; val = 0;
          msk = msk OR RDA5807_MASK_CHAN_BAND;
          val = val OR push_bit RDA5807_SHIFT_CHAN_BAND 2;
          msk = msk OR RDA5807_MASK_CHAN_SPACE;
          val = val OR push_bit RDA5807_SHIFT_CHAN_SPACE 2;
          msk = msk OR RDA5807_MASK_CHAN_WRCHAN;
          val = val OR ucast (push_bit RDA5807_SHIFT_CHAN_WRCHAN (rda5807_chan_index freq_khz));
          msk = msk OR RDA5807_MASK_CHAN_TUNE;
          val = val OR RDA5807_MASK_CHAN_TUNE
      in (msk, val))"

definition rda5807_set_frequency :: "i2c_client \<Rightarrow> u32 \<Rightarrow> int \<times> i2c_client" where
  "rda5807_set_frequency radio freq_khz =
     (if freq_khz < RDA5807_FREQ_MIN_KHZ then (- ERANGE, radio)
      else if freq_khz > RDA5807_FREQ_MAX_KHZ then (- ERANGE, radio)
      else rda5807_update_reg radio RDA5807_REG_CHAN
             (fst (rda5807_tune_fields freq_khz)) (snd (rda5807_tune_fields freq_khz)))"

subsection \<open>Control dispatch (lines 236-257)\<close>

record v4l2_ctrl =
  ctrl_id :: u32
  ctrl_val :: s32

definition rda5807_s_ctrl :: "i2c_client \<Rightarrow> v4l2_ctrl \<Rightarrow> int \<times> i2c_client" where
  "rda5807_s_ctrl radio ctrl =
     (if ctrl_id ctrl = V4L2_CID_AUDIO_MUTE then
        (let r1 = rda5807_set_enable radio (lnot (ctrl_val ctrl));
             r2 = rda5807_set_mute (snd r1) (ctrl_val ctrl);
             err1 = fst r1; err2 = fst r2
         in (if err1 \<noteq> 0 then err1 else err2, snd r2))
      else if ctrl_id ctrl = V4L2_CID_AUDIO_VOLUME then
        rda5807_set_volume radio (ctrl_val ctrl)
      else if ctrl_id ctrl = V4L2_CID_TUNE_PREEMPHASIS then
        rda5807_set_preemphasis radio (ctrl_val ctrl)
      else (- EINVAL, radio))"

subsection \<open>Tuner status and frequency (lines 278-336)\<close>

record v4l2_tuner =
  index :: u32
  name :: string
  type :: u32
  capability :: u32
  rangelow :: u32
  rangehigh :: u32
  rxsubchans :: u32
  audmode :: u32
  signal :: s32
  afc :: s32

text \<open>The status, the tuner structure behind the pointer \<^verbatim>\<open>a\<close>, and the bus.\<close>

definition rda5807_vidioc_g_tuner ::
  "i2c_client \<Rightarrow> v4l2_tuner \<Rightarrow> int \<times> v4l2_tuner \<times> i2c_client" where
  "rda5807_vidioc_g_tuner radio a =
     (if index a \<noteq> 0 then (- EINVAL, a, radio)
      else
        (let r1 = rda5807_i2c_read radio RDA5807_REG_SEEK_RESULT; err = fst r1 in
         if err < 0 then (err, a, snd r1)
         else
           (let seekres = (word_of_int err :: u16);
                rxsubchans' =
                  (if seekres AND (RDA5807_MASK_SEEKRES_COMPLETE OR RDA5807_MASK_SEEKRES_FAIL)
                      = RDA5807_MASK_SEEKRES_COMPLETE
                   then (if seekres AND RDA5807_MASK_SEEKRES_STEREO \<noteq> 0
                         then V4L2_TUNER_SUB_STEREO else V4L2_TUNER_SUB_MONO)
                   else V4L2_TUNER_SUB_MONO OR V4L2_TUNER_SUB_STEREO);
                r2 = rda5807_i2c_read (snd r1) RDA5807_REG_SIGNAL; err = fst r2
            in if err < 0 then (err, a, snd r2)
               else
                 (let signal' =
                        drop_bit RDA5807_SHIFT_RSSI ((word_of_int err :: u16) AND RDA5807_MASK_RSSI)
                  in (0,
                      \<lparr>index = 0, name = ''FM'', type = V4L2_TUNER_RADIO,
                       capability = V4L2_TUNER_CAP_LOW OR V4L2_TUNER_CAP_STEREO,
                       rangelow = RDA5807_FREQ_MIN_KHZ * 16,
                       rangehigh = RDA5807_FREQ_MAX_KHZ * 16,
                       rxsubchans = rxsubchans',
                       audmode = V4L2_TUNER_MODE_STEREO,
                       signal = push_bit (16 - 7) (ucast signal'),
                       afc = 0\<rparr>,
                      snd r2)))))"

record v4l2_frequency =
  tuner :: u32
  freq_type :: u32
  frequency :: u32

definition rda5807_vidioc_s_frequency :: "i2c_client \<Rightarrow> v4l2_frequency \<Rightarrow> int \<times> i2c_client" where
  "rda5807_vidioc_s_frequency radio a =
     (if tuner a \<noteq> 0 then (- EINVAL, radio)
      else if freq_type a \<noteq> V4L2_TUNER_RADIO then (- EINVAL, radio)
      else rda5807_set_frequency radio ((frequency a * 625) div 10000))"

subsection \<open>The host framework\<close>

text \<open>
  The calls the driver makes into the kernel's allocator and the V4L2 framework, in the
  order it makes them.
\<close>

datatype host_call =
    Kzalloc
  | Kfree
  | V4l2_ctrl_handler_init
  | V4l2_ctrl_new u32
  | V4l2_ctrl_handler_setup
  | V4l2_ctrl_handler_free
  | Video_register_device
  | Video_unregister_device
  | Video_device_release_empty

text \<open>
  What the framework answers (whether \<^verbatim>\<open>kzalloc\<close> succeeds, the error the control handler
  has latched after the controls were added, the status of \<^verbatim>\<open>video_register_device\<close>)
  and the calls received so far.
\<close>

record host =
  kzalloc_ok :: bool
  ctrl_handler_error :: int
  video_register_status :: int
  calls :: "host_call list"

definition called :: "host_call \<Rightarrow> host \<Rightarrow> host" where
  "called e h = h\<lparr>calls := calls h @ [e]\<rparr>"

text \<open>\<^verbatim>\<open>struct rda5807_driver\<close> (lines 142-146): the controls of its handler.\<close>

record rda5807_driver =
  ctrl_handler :: "v4l2_ctrl list"

text \<open>
  Modelled from the spec: \<^verbatim>\<open>v4l2_ctrl_new_std\<close> and \<^verbatim>\<open>v4l2_ctrl_new_std_menu\<close> of the
  framework, not in the source: "registration of three named controls", each holding
  its declared default as its current value.
\<close>

definition v4l2_ctrl_new_std :: "v4l2_ctrl list \<Rightarrow> u32 \<Rightarrow> s32 \<Rightarrow> s32 \<Rightarrow> s32 \<Rightarrow> s32 \<Rightarrow> v4l2_ctrl list" where
  "v4l2_ctrl_new_std hdl cid mn mx step def = hdl @ [\<lparr>ctrl_id = cid, ctrl_val = def\<rparr>]"

definition v4l2_ctrl_new_std_menu :: "v4l2_ctrl list \<Rightarrow> u32 \<Rightarrow> s32 \<Rightarrow> s32 \<Rightarrow> s32 \<Rightarrow> v4l2_ctrl list" where
  "v4l2_ctrl_new_std_menu hdl cid mx skip def = hdl @ [\<lparr>ctrl_id = cid, ctrl_val = def\<rparr>]"

text \<open>
  Modelled from the spec: \<^verbatim>\<open>v4l2_ctrl_handler_setup\<close> of the framework, not in the
  source: the "declared default control values, pushed via the encoders at setup time",
  control after control through the driver's \<^verbatim>\<open>s_ctrl\<close>, stopping at the first failure.
\<close>

fun v4l2_ctrl_handler_setup :: "v4l2_ctrl list \<Rightarrow> i2c_client \<Rightarrow> int \<times> i2c_client" where
  "v4l2_ctrl_handler_setup [] client = (0, client)"
| "v4l2_ctrl_handler_setup (ctrl # rest) client =
     (let r = rda5807_s_ctrl client ctrl in
      if fst r \<noteq> 0 then r else v4l2_ctrl_handler_setup rest (snd r))"

text \<open>
  Modelled from the spec: \<^verbatim>\<open>v4l2_ctrl_find\<close> and \<^verbatim>\<open>v4l2_ctrl_g_ctrl\<close> of the framework,
  not in the source: "a query to fetch a control's current value". A control that is not
  in the handler is a null pointer.
\<close>

definition v4l2_ctrl_find :: "v4l2_ctrl list \<Rightarrow> u32 \<Rightarrow> v4l2_ctrl option" where
  "v4l2_ctrl_find hdl cid = find (\<lambda>c. ctrl_id c = cid) hdl"

definition v4l2_ctrl_g_ctrl :: "v4l2_ctrl \<Rightarrow> s32" where
  "v4l2_ctrl_g_ctrl ctrl = ctrl_val ctrl"

subsection \<open>Probe and remove (lines 344-442)\<close>

text \<open>The labels \<^verbatim>\<open>err_ctrl_free\<close> and \<^verbatim>\<open>err_video_unreg\<close> of the probe function.\<close>

definition err_ctrl_free :: "host \<Rightarrow> host" where
  "err_ctrl_free h =
     called Kfree (called Video_device_release_empty (called V4l2_ctrl_handler_free h))"

definition err_video_unreg :: "host \<Rightarrow> host" where
  "err_video_unreg h = err_ctrl_free (called Video_unregister_device h)"

text \<open>
  The status, the driver data that \<^verbatim>\<open>i2c_set_clientdata\<close> has attached to the client
  (line 400), the host and the bus. Nothing is attached on the paths that return before
  line 400. The error paths after it free the driver data, which the \<^verbatim>\<open>Kfree\<close> among
  the calls of the host records, and leave the pointer attached.
\<close>

definition rda5807_i2c_probe ::
  "host \<Rightarrow> i2c_client \<Rightarrow> int \<times> rda5807_driver option \<times> host \<times> i2c_client" where
  "rda5807_i2c_probe h client =
     (let r = rda5807_i2c_read client RDA5807_REG_CHIPID; chipid = fst r; client = snd r in
      if chipid < 0 then (chipid, None, h, client)
      else if chipid AND 0xFF00 \<noteq> 0x5800 then (- ENODEV, None, h, client)
      else
        (let h = called Kzalloc h in
         if \<not> kzalloc_ok h then (- ENOMEM, None, h, client)
         else
           (let hdl = [];
                h = called V4l2_ctrl_handler_init h;
                hdl = v4l2_ctrl_new_std hdl V4L2_CID_AUDIO_MUTE 0 1 1 1;
                h = called (V4l2_ctrl_new V4L2_CID_AUDIO_MUTE) h;
                hdl = v4l2_ctrl_new_std hdl V4L2_CID_AUDIO_VOLUME 0 15 1 8;
                h = called (V4l2_ctrl_new V4L2_CID_AUDIO_VOLUME) h;
                hdl = v4l2_ctrl_new_std_menu hdl V4L2_CID_TUNE_PREEMPHASIS
                        V4L2_PREEMPHASIS_75_uS (push_bit (unat V4L2_PREEMPHASIS_DISABLED) 1)
                        V4L2_PREEMPHASIS_50_uS;
                h = called (V4l2_ctrl_new V4L2_CID_TUNE_PREEMPHASIS) h;
                err = ctrl_handler_error h
            in if err \<noteq> 0 then (err, None, err_ctrl_free h, client)
               else
                 (let clientdata = Some \<lparr>ctrl_handler = hdl\<rparr>;
                      h = called Video_register_device h;
                      err = video_register_status h
                  in if err < 0 then (err, clientdata, err_ctrl_free h, client)
                     else
                       (let h = called V4l2_ctrl_handler_setup h;
                            s = v4l2_ctrl_handler_setup hdl client;
                            err = fst s; client = snd s
                        in if err < 0 then (err, clientdata, err_video_unreg h, client)
                           else (0, clientdata, h, client))))))"

definition rda5807_i2c_remove :: "host \<Rightarrow> int \<times> host" where
  "rda5807_i2c_remove h =
     (0, called Kfree (called Video_device_release_empty
           (called V4l2_ctrl_handler_free (called Video_unregister_device h))))"

subsection \<open>Power management (lines 446-467)\<close>

definition rda5807_suspend :: "i2c_client \<Rightarrow> int \<times> i2c_client" where
  "rda5807_suspend radio = rda5807_set_enable radio 0"

text \<open>
  \<^verbatim>\<open>rda5807_resume\<close> dereferences the control it has looked up: with no mute control in
  the handler there is no result.
\<close>

definition rda5807_resume :: "rda5807_driver \<Rightarrow> i2c_client \<Rightarrow> (int \<times> i2c_client) option" where
  "rda5807_resume radio client =
     (case v4l2_ctrl_find (ctrl_handler radio) V4L2_CID_AUDIO_MUTE of
        None \<Rightarrow> None
      | Some mute_ctrl \<Rightarrow>
          (let mute_val = v4l2_ctrl_g_ctrl mute_ctrl;
               enabled = lnot mute_val
           in if enabled \<noteq> 0 then Some (rda5807_set_enable client enabled)
              else Some (0, client)))"

subsection \<open>Reading the bus log\<close>

text \<open>
  The messages \<^verbatim>\<open>rda5807_i2c_read\<close> and \<^verbatim>\<open>rda5807_i2c_write\<close> put into one transfer
  (the arrays \<^verbatim>\<open>msgs\<close> of lines 96-109 and 124-131).
\<close>

definition read_msgs :: "i2c_client \<Rightarrow> rda5807_reg \<Rightarrow> i2c_msg list" where
  "read_msgs c reg =
     [\<lparr>addr = client_addr c, flags = 0, len = 1, buf = [reg_num reg]\<rparr>,
      \<lparr>addr = client_addr c, flags = I2C_M_RD, len = 2, buf = []\<rparr>]"

definition write_msgs :: "i2c_client \<Rightarrow> rda5807_reg \<Rightarrow> u16 \<Rightarrow> i2c_msg list" where
  "write_msgs c reg val =
     [\<lparr>addr = client_addr c, flags = 0, len = 3,
       buf = [reg_num reg, ucast (drop_bit 8 val), ucast (val AND 0xFF)]\<rparr>]"

text \<open>The adapter will complete the next transfer when it has \<open>n\<close> messages.\<close>

definition completes :: "nat \<Rightarrow> i2c_client \<Rightarrow> bool" where
  "completes n c = (case script c of [] \<Rightarrow> True | r # rs \<Rightarrow> int n \<le> r)"

text \<open>The state after a register read that the adapter completes.\<close>

definition after_read :: "i2c_client \<Rightarrow> rda5807_reg \<Rightarrow> i2c_client" where
  "after_read c reg =
     c\<lparr>xfers := xfers c @ [read_msgs c reg], script := tl (script c), reg_sel := reg_num reg\<rparr>"

text \<open>
  A bus for the examples: the chip at address 0x11 with identifier 0x5804, enabled and
  unmuted, tuned, a finished seek in stereo and a signal reading; the adapter gives the
  results \<open>rs\<close> to the coming transfers and has carried none yet.
\<close>

definition chip_regs :: "u8 \<Rightarrow> u16" where
  "chip_regs r =
     (if r = 0x00 then 0x5804 else if r = 0x02 then 0xC001 else if r = 0x03 then 0x1A1A
      else if r = 0x04 then 0x0800 else if r = 0x05 then 0x8888
      else if r = 0x0A then 0x4400 else if r = 0x0B then 0x6A55 else 0)"

definition bus_with :: "int list \<Rightarrow> i2c_client" where
  "bus_with rs = \<lparr>client_addr = 0x11, regs = chip_regs, reg_sel = 0, script = rs, xfers = []\<rparr>"

text \<open>A tuner structure as a caller passes it in, asking for tuner 0.\<close>

definition blank_tuner :: v4l2_tuner where
  "blank_tuner = \<lparr>index = 0, name = [], type = 0, capability = 0, rangelow = 0, rangehigh = 0,
     rxsubchans = 0, audmode = 0, signal = 0, afc = 0\<rparr>"

text \<open>A host whose allocator and framework refuse nothing, before any call.\<close>

definition host_ok :: host where
  "host_ok = \<lparr>kzalloc_ok = True, ctrl_handler_error = 0, video_register_status = 0, calls = []\<rparr>"

section \<open>Properties\<close>

subsection \<open>Bytes on the bus\<close>

lemma and_FF: "(v :: u16) AND 0xFF = take_bit 8 v"
proof -
  have "(0xFF :: u16) = mask 8" by (simp add: mask_eq_exp_minus_1)
  then show ?thesis by (simp add: take_bit_eq_mask)
qed

lemma be16_bytes:
  "push_bit 8 (ucast (ucast (drop_bit 8 v) :: u8)) OR ucast (ucast (v AND 0xFF) :: u8) = (v :: u16)"
  unfolding and_FF
proof (rule bit_word_eqI)
  fix n assume "n < LENGTH(16)"
  then show "bit (push_bit 8 (ucast (ucast (drop_bit 8 v) :: u8)) OR ucast (ucast (take_bit 8 v) :: u8) :: u16) n
      \<longleftrightarrow> bit v n"
    by (cases "n < 8") (auto simp: bit_simps)
qed

lemma be16_bytes':
  "push_bit 8 (ucast (ucast (drop_bit 8 v) :: u8)) OR ucast (ucast v :: u8) = (v :: u16)"
proof (rule bit_word_eqI)
  fix n assume "n < LENGTH(16)"
  then show "bit (push_bit 8 (ucast (ucast (drop_bit 8 v) :: u8)) OR ucast (ucast v :: u8) :: u16) n
      \<longleftrightarrow> bit v n"
    by (cases "n < 8") (auto simp: bit_simps)
qed

subsection \<open>One transfer, one register access\<close>

lemma i2c_transfer_read_ok:
  "completes 2 c \<Longrightarrow>
   i2c_transfer c (read_msgs c reg) =
     (2, [ucast (drop_bit 8 (regs c (reg_num reg))), ucast (regs c (reg_num reg))],
      c\<lparr>xfers := xfers c @ [read_msgs c reg], script := tl (script c), reg_sel := reg_num reg\<rparr>)"
  by (auto simp: completes_def i2c_transfer_def read_msgs_def dev_msg_def I2C_M_RD_def Let_def split: list.splits)

lemma i2c_transfer_read_fail:
  "\<not> completes 2 c \<Longrightarrow>
   fst (i2c_transfer c (read_msgs c reg)) < 2 \<and>
   regs (snd (snd (i2c_transfer c (read_msgs c reg)))) = regs c \<and>
   xfers (snd (snd (i2c_transfer c (read_msgs c reg)))) = xfers c @ [read_msgs c reg] \<and>
   script (snd (snd (i2c_transfer c (read_msgs c reg)))) = tl (script c) \<and>
   client_addr (snd (snd (i2c_transfer c (read_msgs c reg)))) = client_addr c"
  apply (cases "script c")
   apply (simp add: completes_def)
  subgoal for r rs
    apply (cases "r < 0")
     apply (simp add: completes_def i2c_transfer_def Let_def)
    apply (cases "nat r")
     apply (simp add: completes_def i2c_transfer_def Let_def read_msgs_def)
    subgoal for k
      apply (cases k)
       apply (simp add: completes_def i2c_transfer_def Let_def read_msgs_def dev_msg_def I2C_M_RD_def)
      apply (simp add: completes_def)
      done
    done
  done

lemma read_ok:
  assumes h: "completes 2 c"
  shows "rda5807_i2c_read c reg =
     (uint (regs c (reg_num reg)),
      c\<lparr>xfers := xfers c @ [read_msgs c reg], script := tl (script c), reg_sel := reg_num reg\<rparr>)"
proof -
  note t = i2c_transfer_read_ok [OF h, of reg, unfolded read_msgs_def]
  show ?thesis
    unfolding rda5807_i2c_read_def Let_def t
    by (simp add: be16_to_cpu_def be16_bytes' read_msgs_def)
qed

lemma read_fail:
  assumes h: "\<not> completes 2 c"
  shows "fst (rda5807_i2c_read c reg) < 0 \<and>
     regs (snd (rda5807_i2c_read c reg)) = regs c \<and>
     xfers (snd (rda5807_i2c_read c reg)) = xfers c @ [read_msgs c reg] \<and>
     script (snd (rda5807_i2c_read c reg)) = tl (script c) \<and>
     client_addr (snd (rda5807_i2c_read c reg)) = client_addr c"
proof -
  note t = i2c_transfer_read_fail [OF h, of reg, unfolded read_msgs_def]
  show ?thesis
    unfolding rda5807_i2c_read_def Let_def read_msgs_def
    using t by (simp add: EIO_def)
qed

lemma i2c_transfer_write_ok:
  "completes 1 c \<Longrightarrow>
   i2c_transfer c (write_msgs c reg val) =
     (1, [],
      c\<lparr>xfers := xfers c @ [write_msgs c reg val], script := tl (script c),
        regs := (regs c)(reg_num reg := val), reg_sel := reg_num reg\<rparr>)"
  by (auto simp: completes_def i2c_transfer_def write_msgs_def dev_msg_def I2C_M_RD_def Let_def be16_bytes
      split: list.splits)

lemma i2c_transfer_write_fail:
  "\<not> completes 1 c \<Longrightarrow>
   fst (i2c_transfer c (write_msgs c reg val)) < 1 \<and>
   snd (snd (i2c_transfer c (write_msgs c reg val))) =
     c\<lparr>xfers := xfers c @ [write_msgs c reg val], script := tl (script c)\<rparr>"
  apply (cases "script c")
   apply (simp add: completes_def)
  subgoal for r rs
    apply (cases "r < 0")
     apply (simp add: completes_def i2c_transfer_def Let_def)
    apply (cases "nat r")
     apply (simp add: completes_def i2c_transfer_def Let_def write_msgs_def)
    apply (simp add: completes_def)
    done
  done

lemma write_ok:
  assumes h: "completes 1 c"
  shows "rda5807_i2c_write c reg val =
     (0, c\<lparr>xfers := xfers c @ [write_msgs c reg val], script := tl (script c),
           regs := (regs c)(reg_num reg := val), reg_sel := reg_num reg\<rparr>)"
proof -
  note t = i2c_transfer_write_ok [OF h, of reg val, unfolded write_msgs_def]
  show ?thesis
    unfolding rda5807_i2c_write_def Let_def t
    by (simp add: write_msgs_def)
qed

lemma write_fail:
  assumes h: "\<not> completes 1 c"
  shows "fst (rda5807_i2c_write c reg val) < 0 \<and>
     snd (rda5807_i2c_write c reg val) =
       c\<lparr>xfers := xfers c @ [write_msgs c reg val], script := tl (script c)\<rparr>"
proof -
  note t = i2c_transfer_write_fail [OF h, of reg val, unfolded write_msgs_def]
  show ?thesis
    unfolding rda5807_i2c_write_def Let_def write_msgs_def
    using t by (simp add: EIO_def)
qed

subsection \<open>Read-modify-write\<close>

lemma update_reg_ok:
  assumes r: "completes 2 c" and w: "completes 1 (after_read c reg)"
  shows "rda5807_update_reg c reg msk val =
     (0, c\<lparr>xfers := xfers c @ [read_msgs c reg,
                 write_msgs c reg (val OR (regs c (reg_num reg) AND NOT msk))],
           script := tl (tl (script c)),
           regs := (regs c)(reg_num reg := val OR (regs c (reg_num reg) AND NOT msk)),
           reg_sel := reg_num reg\<rparr>)"
  unfolding rda5807_update_reg_def Let_def read_ok [OF r] after_read_def [symmetric]
  by (simp add: write_ok [OF w]) (simp add: after_read_def write_msgs_def)

lemma update_reg_read_fail:
  assumes r: "\<not> completes 2 c"
  shows "fst (rda5807_update_reg c reg msk val) < 0 \<and>
     regs (snd (rda5807_update_reg c reg msk val)) = regs c \<and>
     xfers (snd (rda5807_update_reg c reg msk val)) = xfers c @ [read_msgs c reg]"
  using read_fail [OF r, of reg]
  by (simp add: rda5807_update_reg_def Let_def)

lemma update_reg_write_fail:
  assumes r: "completes 2 c" and w: "\<not> completes 1 (after_read c reg)"
  shows "fst (rda5807_update_reg c reg msk val) < 0 \<and>
     regs (snd (rda5807_update_reg c reg msk val)) = regs c \<and>
     xfers (snd (rda5807_update_reg c reg msk val)) =
       xfers c @ [read_msgs c reg, write_msgs c reg (val OR (regs c (reg_num reg) AND NOT msk))]"
  unfolding rda5807_update_reg_def Let_def read_ok [OF r] after_read_def [symmetric]
  using write_fail [OF w, of reg "val OR (regs c (reg_num reg) AND NOT msk)"]
  by (simp add: after_read_def write_msgs_def)

lemma update_reg_success_iff:
  "fst (rda5807_update_reg c reg msk val) = 0 \<longleftrightarrow>
     completes 2 c \<and> completes 1 (after_read c reg)"
proof (cases "completes 2 c")
  case False
  with update_reg_read_fail [OF False, of reg msk val] show ?thesis by simp
next
  case r: True
  show ?thesis
  proof (cases "completes 1 (after_read c reg)")
    case True
    with r update_reg_ok [OF r True, of msk val] show ?thesis by simp
  next
    case False
    with r update_reg_write_fail [OF r False, of msk val] show ?thesis by simp
  qed
qed

lemma and_mask_id: "val AND NOT msk = 0 \<Longrightarrow> val AND msk = (val :: u16)"
  by (metis and.right_neutral bit.conj_disj_distrib bit.disj_cancel_right or.right_neutral) 

lemma merge_outside:
  "val AND NOT msk = 0 \<Longrightarrow> (val OR (cur AND NOT msk)) AND NOT msk = cur AND NOT (msk :: u16)"
  by (simp add: bit.conj_disj_distrib2 and.assoc)

text \<open>
  C1, as the code has it. A successful \<^verbatim>\<open>rda5807_update_reg\<close> issues one read and one
  write of the register and writes back \<open>val OR (current AND NOT mask)\<close>, where
  \<open>current\<close> is the value just read; no other register changes. The value is not cut
  to the mask: when it has no bit outside the mask, what is written is
  \<open>(val AND mask) OR (current AND NOT mask)\<close> and the bits of the register outside the
  mask are the bits that were there before the call.
\<close>

theorem update_reg_merged:
  assumes ok: "fst (rda5807_update_reg radio reg msk val) = 0"
  shows "regs (snd (rda5807_update_reg radio reg msk val)) (reg_num reg)
           = val OR (regs radio (reg_num reg) AND NOT msk)
       \<and> xfers (snd (rda5807_update_reg radio reg msk val))
           = xfers radio @ [read_msgs radio reg,
               write_msgs radio reg (val OR (regs radio (reg_num reg) AND NOT msk))]
       \<and> (\<forall>r. r \<noteq> reg_num reg \<longrightarrow>
             regs (snd (rda5807_update_reg radio reg msk val)) r = regs radio r)
       \<and> (val AND NOT msk = 0 \<longrightarrow>
             regs (snd (rda5807_update_reg radio reg msk val)) (reg_num reg)
               = (val AND msk) OR (regs radio (reg_num reg) AND NOT msk)
           \<and> regs (snd (rda5807_update_reg radio reg msk val)) (reg_num reg) AND NOT msk
               = regs radio (reg_num reg) AND NOT msk)"
proof -
  from ok have r: "completes 2 radio" and w: "completes 1 (after_read radio reg)"
    by (simp_all add: update_reg_success_iff)
  show ?thesis
    unfolding update_reg_ok [OF r w]
    by (simp add: and_mask_id merge_outside)
qed

theorem update_reg_merged_witness:
  "fst (rda5807_update_reg (bus_with []) RDA5807_REG_CTRL 0x4000 0) = 0
   \<and> (0 :: u16) AND NOT 0x4000 = 0
   \<and> regs (snd (rda5807_update_reg (bus_with []) RDA5807_REG_CTRL 0x4000 0)) 0x02 = 0x8001
   \<and> regs (snd (rda5807_update_reg (bus_with []) RDA5807_REG_CTRL 0x4000 0)) 0x02 AND NOT 0x4000
       = 0xC001 AND NOT 0x4000"
proof -
  have ok: "fst (rda5807_update_reg (bus_with []) RDA5807_REG_CTRL 0x4000 0) = 0"
    by (simp add: update_reg_success_iff completes_def after_read_def bus_with_def)
  show ?thesis
    using ok update_reg_merged [OF ok]
    by (simp add: bus_with_def chip_regs_def)
qed

text \<open>
  C1, as the spec states it, fails for a value with a bit outside the mask: updating the
  control register, which holds 0xC001, with mask 0x4000 and value 0x0002 succeeds and
  leaves 0x8003, where the merge of the spec would leave 0x8001; bit 1, outside the
  mask, has changed.
\<close>

theorem update_reg_unmasked_value_counterexample:
  "fst (rda5807_update_reg (bus_with []) RDA5807_REG_CTRL 0x4000 0x0002) = 0
   \<and> regs (snd (rda5807_update_reg (bus_with []) RDA5807_REG_CTRL 0x4000 0x0002)) (reg_num RDA5807_REG_CTRL)
       \<noteq> (0x0002 AND 0x4000) OR (regs (bus_with []) (reg_num RDA5807_REG_CTRL) AND NOT 0x4000)
   \<and> regs (snd (rda5807_update_reg (bus_with []) RDA5807_REG_CTRL 0x4000 0x0002)) (reg_num RDA5807_REG_CTRL)
         AND NOT 0x4000
       \<noteq> regs (bus_with []) (reg_num RDA5807_REG_CTRL) AND NOT 0x4000"
proof -
  have r: "completes 2 (bus_with [])" and w: "completes 1 (after_read (bus_with []) RDA5807_REG_CTRL)"
    by (simp_all add: completes_def after_read_def bus_with_def)
  show ?thesis
    unfolding update_reg_ok [OF r w]
    by (simp add: bus_with_def chip_regs_def)
qed

lemma VOLUME_eq: "RDA5807_MASK_VOLUME_DAC = mask 4"
  by (simp add: RDA5807_MASK_VOLUME_DAC_def RDA5807_SHIFT_VOLUME_DAC_def mask_eq_exp_minus_1)

lemma small_volume_bits:
  assumes "(volume :: s32) \<le> 15" and "bit volume k"
  shows "k < 4"
proof -
  from assms(1) have "volume < 2 ^ 4" by (simp add: word_le_nat_alt word_less_nat_alt)
  then have "take_bit 4 volume = volume" by (simp add: take_bit_eq_mask less_mask_eq)
  with assms(2) have "bit (take_bit 4 volume) k" by simp
  then show ?thesis by (simp add: bit_take_bit_iff)
qed

text \<open>
  The values the encoders of one bit pass to the read-modify-write have no bit outside
  their mask, and neither has the volume when it is one of the sixteen levels that the
  control declares.
\<close>

lemma encoder_values_within_mask:
  "(if (enabled :: s32) \<noteq> 0 then RDA5807_MASK_CTRL_ENABLE else 0) AND NOT RDA5807_MASK_CTRL_ENABLE = 0"
  "(if (muted :: s32) \<noteq> 0 then 0 else RDA5807_MASK_CTRL_DMUTE) AND NOT RDA5807_MASK_CTRL_DMUTE = 0"
  "(if preemp = V4L2_PREEMPHASIS_50_uS then RDA5807_MASK_DEEMPHASIS else 0)
     AND NOT RDA5807_MASK_DEEMPHASIS = 0"
  "(volume :: s32) \<le> 15 \<Longrightarrow>
     ucast (push_bit RDA5807_SHIFT_VOLUME_DAC volume) AND NOT RDA5807_MASK_VOLUME_DAC = 0"
proof -
  show "(if enabled \<noteq> 0 then RDA5807_MASK_CTRL_ENABLE else 0) AND NOT RDA5807_MASK_CTRL_ENABLE = 0"
    by simp
  show "(if muted \<noteq> 0 then 0 else RDA5807_MASK_CTRL_DMUTE) AND NOT RDA5807_MASK_CTRL_DMUTE = 0"
    by simp
  show "(if preemp = V4L2_PREEMPHASIS_50_uS then RDA5807_MASK_DEEMPHASIS else 0)
     AND NOT RDA5807_MASK_DEEMPHASIS = 0"
    by simp
  assume v: "volume \<le> 15"
  show "ucast (push_bit RDA5807_SHIFT_VOLUME_DAC volume) AND NOT RDA5807_MASK_VOLUME_DAC = 0"
    unfolding VOLUME_eq RDA5807_SHIFT_VOLUME_DAC_def
  proof (rule bit_word_eqI)
    fix n assume "n < LENGTH(16)"
    show "bit (ucast (push_bit 0 volume) AND NOT (mask 4) :: u16) n \<longleftrightarrow> bit (0 :: u16) n"
      using small_volume_bits [OF v, of n]
      by (auto simp: bit_and_iff bit_not_iff bit_ucast_iff bit_mask_iff)
  qed
qed

subsection \<open>The frequency encoder\<close>

lemma bit_BIT: "bit (BIT k) n \<longleftrightarrow> n = k \<and> k < 16"
  by (auto simp: BIT_def bit_simps)

lemma WRCHAN_eq: "RDA5807_MASK_CHAN_WRCHAN = push_bit 6 (mask 10)"
  by (simp add: RDA5807_MASK_CHAN_WRCHAN_def RDA5807_SHIFT_CHAN_WRCHAN_def mask_eq_exp_minus_1)

lemma bit_WRCHAN: "bit RDA5807_MASK_CHAN_WRCHAN n \<longleftrightarrow> 6 \<le> n \<and> n < 16"
  unfolding WRCHAN_eq by (auto simp: bit_simps)

lemma BAND_eq: "RDA5807_MASK_CHAN_BAND = push_bit 2 (mask 2)"
  by (simp add: RDA5807_MASK_CHAN_BAND_def RDA5807_SHIFT_CHAN_BAND_def mask_eq_exp_minus_1)

lemma bit_BAND: "bit RDA5807_MASK_CHAN_BAND n \<longleftrightarrow> n = 2 \<or> n = 3"
  unfolding BAND_eq by (auto simp: bit_simps)

lemma SPACE_eq: "RDA5807_MASK_CHAN_SPACE = mask 2"
  by (simp add: RDA5807_MASK_CHAN_SPACE_def RDA5807_SHIFT_CHAN_SPACE_def mask_eq_exp_minus_1)

lemma bit_SPACE: "bit RDA5807_MASK_CHAN_SPACE n \<longleftrightarrow> n = 0 \<or> n = 1"
  unfolding SPACE_eq by (auto simp: bit_simps)

lemma band_val_eq: "(push_bit RDA5807_SHIFT_CHAN_BAND 2 :: u16) = BIT 3"
  by (simp add: RDA5807_SHIFT_CHAN_BAND_def BIT_def)

lemma space_val_eq: "(push_bit RDA5807_SHIFT_CHAN_SPACE 2 :: u16) = BIT 1"
  by (simp add: RDA5807_SHIFT_CHAN_SPACE_def BIT_def)

lemma tune_fields_eq:
  "rda5807_tune_fields f =
     (RDA5807_MASK_CHAN_BAND OR RDA5807_MASK_CHAN_SPACE OR RDA5807_MASK_CHAN_WRCHAN OR BIT 4,
      BIT 3 OR BIT 1 OR ucast (push_bit 6 (rda5807_chan_index f)) OR BIT 4)"
  unfolding rda5807_tune_fields_def Let_def band_val_eq space_val_eq RDA5807_MASK_CHAN_TUNE_def
  by (simp add: RDA5807_SHIFT_CHAN_WRCHAN_def or.assoc)

lemma tune_mask_bits: "bit (fst (rda5807_tune_fields f)) n \<longleftrightarrow> n < 16 \<and> n \<noteq> 5"
  unfolding tune_fields_eq fst_conv
  by (auto simp: bit_or_iff bit_WRCHAN bit_BAND bit_SPACE bit_BIT)

lemma tune_val_bits:
  "bit (snd (rda5807_tune_fields f)) n \<longleftrightarrow>
     n = 1 \<or> n = 3 \<or> n = 4 \<or> (6 \<le> n \<and> n < 16 \<and> bit (rda5807_chan_index f) (n - 6))"
  unfolding tune_fields_eq snd_conv
  by (auto simp: bit_or_iff bit_BIT bit_ucast_iff bit_push_bit_iff)

lemma tune_val_in_mask:
  "snd (rda5807_tune_fields f) AND NOT (fst (rda5807_tune_fields f)) = 0"
  by (rule bit_word_eqI) (auto simp: bit_and_iff bit_not_iff tune_mask_bits tune_val_bits)


lemma in_band_unat:
  assumes lo: "RDA5807_FREQ_MIN_KHZ \<le> f" and hi: "f \<le> RDA5807_FREQ_MAX_KHZ"
  shows "76000 \<le> unat f \<and> unat f \<le> 108000"
  using lo hi by (simp add: word_le_nat_alt RDA5807_FREQ_MIN_KHZ_def RDA5807_FREQ_MAX_KHZ_def)

lemma chan_index_unat:
  assumes lo: "RDA5807_FREQ_MIN_KHZ \<le> f" and hi: "f \<le> RDA5807_FREQ_MAX_KHZ"
  shows "unat (rda5807_chan_index f) = (unat f - 76000 + 25) div 50"
proof -
  from in_band_unat [OF lo hi] have b: "76000 \<le> unat f" "unat f \<le> 108000" by simp_all
  have e: "f - RDA5807_FREQ_MIN_KHZ + 25 = f - 75975"
    by (simp add: RDA5807_FREQ_MIN_KHZ_def)
  have "(75975 :: u32) \<le> f"
    using b by (simp add: word_le_nat_alt)
  then have s: "unat (f - 75975) = unat f - 75975"
    by (simp add: unat_sub)
  have n: "unat f - 76000 + 25 = unat f - 75975"
    using b by arith
  show ?thesis
    unfolding rda5807_chan_index_def e n by (simp add: unat_div s)
qed

lemma chan_index_le:
  assumes lo: "RDA5807_FREQ_MIN_KHZ \<le> f" and hi: "f \<le> RDA5807_FREQ_MAX_KHZ"
  shows "unat (rda5807_chan_index f) \<le> 640"
  unfolding chan_index_unat [OF lo hi]
  using in_band_unat [OF lo hi] by arith

lemma chan_round_trip:
  assumes lo: "RDA5807_FREQ_MIN_KHZ \<le> f" and hi: "f \<le> RDA5807_FREQ_MAX_KHZ"
  shows "\<bar>int (unat (rda5807_chan_index f)) * 50 + 76000 - int (unat f)\<bar> \<le> 25"
  unfolding chan_index_unat [OF lo hi]
  using in_band_unat [OF lo hi] by arith

text \<open>A channel index below 1024 has no bit from position 10 on.\<close>

lemma small_index_bits:
  assumes "unat (c :: u32) < 1024" and "bit c k"
  shows "k < 10"
proof -
  from assms(1) have "c < 2 ^ 10" by (simp add: word_less_nat_alt)
  then have "take_bit 10 c = c" by (simp add: take_bit_eq_mask less_mask_eq)
  with assms(2) have "bit (take_bit 10 c) k" by simp
  then show ?thesis by (simp add: bit_take_bit_iff)
qed

lemma shifted_index_in_field:
  assumes "unat (c :: u32) < 1024"
  shows "push_bit RDA5807_SHIFT_CHAN_WRCHAN c AND NOT (ucast RDA5807_MASK_CHAN_WRCHAN) = 0"
proof (rule bit_word_eqI)
  fix n assume "n < LENGTH(32)"
  show "bit (push_bit RDA5807_SHIFT_CHAN_WRCHAN c AND NOT (ucast RDA5807_MASK_CHAN_WRCHAN)) n
          \<longleftrightarrow> bit (0 :: u32) n"
    using small_index_bits [OF assms, of "n - 6"]
    by (auto simp: bit_and_iff bit_not_iff bit_push_bit_iff bit_ucast_iff bit_WRCHAN
        RDA5807_SHIFT_CHAN_WRCHAN_def)
qed

lemma wrchan_field_of_val:
  assumes "unat (rda5807_chan_index f) < 1024"
  shows "drop_bit RDA5807_SHIFT_CHAN_WRCHAN ((snd (rda5807_tune_fields f) OR (cur AND NOT (fst (rda5807_tune_fields f)))) AND RDA5807_MASK_CHAN_WRCHAN)
          = ucast (rda5807_chan_index f)"
proof (rule bit_word_eqI)
  fix n assume n: "n < LENGTH(16)"
  show "bit (drop_bit RDA5807_SHIFT_CHAN_WRCHAN ((snd (rda5807_tune_fields f) OR (cur AND NOT (fst (rda5807_tune_fields f)))) AND RDA5807_MASK_CHAN_WRCHAN)) n
          \<longleftrightarrow> bit (ucast (rda5807_chan_index f) :: u16) n"
    using small_index_bits [OF assms, of n] n
    by (auto simp: bit_and_iff bit_or_iff bit_not_iff bit_drop_bit_eq bit_ucast_iff bit_WRCHAN
        tune_mask_bits tune_val_bits RDA5807_SHIFT_CHAN_WRCHAN_def)
qed


lemma set_frequency_in_band:
  assumes lo: "RDA5807_FREQ_MIN_KHZ \<le> f" and hi: "f \<le> RDA5807_FREQ_MAX_KHZ"
  shows "rda5807_set_frequency radio f =
           rda5807_update_reg radio RDA5807_REG_CHAN
             (fst (rda5807_tune_fields f)) (snd (rda5807_tune_fields f))"
  using lo hi by (simp add: rda5807_set_frequency_def not_less [symmetric])

lemma chan_index_listed_values:
  "map (\<lambda>f. unat (rda5807_chan_index f)) [76000, 76001, 87500, 98000, 107999, 108000]
     = [0, 0, 230, 440, 640, 640]"
  by (simp add: rda5807_chan_index_def RDA5807_FREQ_MIN_KHZ_def)

text \<open>
  C2. The channel index that \<^verbatim>\<open>rda5807_set_frequency\<close> computes for a frequency
  \<open>f\<close>, in kHz, is \<open>(f - 76000 + 25) div 50\<close> in the arithmetic of \<^verbatim>\<open>u32\<close>. For a
  frequency of the band, the only ones for which the encoder gets that far, nothing
  wraps: the index is \<open>(f - 76000 + 25) div 50\<close> on the natural numbers, and after a
  successful call it is what the WRCHAN field of the channel register holds. Decoding it
  back, as \<open>index * 50 + 76000\<close>, gives a frequency within 25 kHz of \<open>f\<close>; this
  holds for every frequency of the band, so for 76000, 76001, 87500, 98000, 107999 and
  108000, whose indices \<open>chan_index_listed_values\<close> gives.
\<close>

theorem set_frequency_channel_index:
  "rda5807_chan_index f = (f - 76000 + 25) div 50
   \<and> (RDA5807_FREQ_MIN_KHZ \<le> f \<and> f \<le> RDA5807_FREQ_MAX_KHZ \<longrightarrow>
        unat (rda5807_chan_index f) = (unat f - 76000 + 25) div 50
      \<and> (fst (rda5807_set_frequency radio f) = 0 \<longrightarrow>
            unat (drop_bit RDA5807_SHIFT_CHAN_WRCHAN
                    (regs (snd (rda5807_set_frequency radio f)) (reg_num RDA5807_REG_CHAN)
                       AND RDA5807_MASK_CHAN_WRCHAN))
              = (unat f - 76000 + 25) div 50)
      \<and> \<bar>int (unat (rda5807_chan_index f)) * 50 + 76000 - int (unat f)\<bar> \<le> 25)"
proof (intro conjI impI)
  show "rda5807_chan_index f = (f - 76000 + 25) div 50"
    by (simp add: rda5807_chan_index_def RDA5807_FREQ_MIN_KHZ_def)
next
  assume "RDA5807_FREQ_MIN_KHZ \<le> f \<and> f \<le> RDA5807_FREQ_MAX_KHZ"
  then have lo: "RDA5807_FREQ_MIN_KHZ \<le> f" and hi: "f \<le> RDA5807_FREQ_MAX_KHZ" by simp_all
  show "unat (rda5807_chan_index f) = (unat f - 76000 + 25) div 50"
    by (rule chan_index_unat [OF lo hi])
next
  assume "RDA5807_FREQ_MIN_KHZ \<le> f \<and> f \<le> RDA5807_FREQ_MAX_KHZ"
  then have lo: "RDA5807_FREQ_MIN_KHZ \<le> f" and hi: "f \<le> RDA5807_FREQ_MAX_KHZ" by simp_all
  assume ok: "fst (rda5807_set_frequency radio f) = 0"
  let ?m = "fst (rda5807_tune_fields f)" and ?v = "snd (rda5807_tune_fields f)"
  from ok have r: "completes 2 radio" and w: "completes 1 (after_read radio RDA5807_REG_CHAN)"
    by (simp_all add: set_frequency_in_band [OF lo hi] update_reg_success_iff)
  have small: "unat (rda5807_chan_index f) < 1024"
    using chan_index_le [OF lo hi] by simp
  have "regs (snd (rda5807_set_frequency radio f)) (reg_num RDA5807_REG_CHAN)
          = ?v OR (regs radio (reg_num RDA5807_REG_CHAN) AND NOT ?m)"
    by (simp add: set_frequency_in_band [OF lo hi] update_reg_ok [OF r w])
  then have "drop_bit RDA5807_SHIFT_CHAN_WRCHAN
               (regs (snd (rda5807_set_frequency radio f)) (reg_num RDA5807_REG_CHAN)
                  AND RDA5807_MASK_CHAN_WRCHAN)
             = (ucast (rda5807_chan_index f) :: u16)"
    by (simp only: wrchan_field_of_val [OF small])
  moreover have "unat (ucast (rda5807_chan_index f) :: u16) = unat (rda5807_chan_index f)"
    using small by (simp add: unsigned_ucast_eq take_bit_nat_eq_self)
  ultimately show "unat (drop_bit RDA5807_SHIFT_CHAN_WRCHAN
                    (regs (snd (rda5807_set_frequency radio f)) (reg_num RDA5807_REG_CHAN)
                       AND RDA5807_MASK_CHAN_WRCHAN))
              = (unat f - 76000 + 25) div 50"
    by (simp only: chan_index_unat [OF lo hi])
next
  assume "RDA5807_FREQ_MIN_KHZ \<le> f \<and> f \<le> RDA5807_FREQ_MAX_KHZ"
  then have lo: "RDA5807_FREQ_MIN_KHZ \<le> f" and hi: "f \<le> RDA5807_FREQ_MAX_KHZ" by simp_all
  show "\<bar>int (unat (rda5807_chan_index f)) * 50 + 76000 - int (unat f)\<bar> \<le> 25"
    by (rule chan_round_trip [OF lo hi])
qed

theorem set_frequency_channel_index_witness:
  "RDA5807_FREQ_MIN_KHZ \<le> 107999 \<and> 107999 \<le> RDA5807_FREQ_MAX_KHZ
   \<and> fst (rda5807_set_frequency (bus_with []) 107999) = 0
   \<and> unat (rda5807_chan_index 107999) = 640
   \<and> unat (drop_bit RDA5807_SHIFT_CHAN_WRCHAN
              (regs (snd (rda5807_set_frequency (bus_with []) 107999)) (reg_num RDA5807_REG_CHAN)
                 AND RDA5807_MASK_CHAN_WRCHAN)) = 640
   \<and> \<bar>int (unat (rda5807_chan_index 107999)) * 50 + 76000 - 107999\<bar> \<le> 25"
proof -
  have lo: "RDA5807_FREQ_MIN_KHZ \<le> 107999" and hi: "107999 \<le> RDA5807_FREQ_MAX_KHZ"
    by (simp_all add: RDA5807_FREQ_MIN_KHZ_def RDA5807_FREQ_MAX_KHZ_def)
  have ok: "fst (rda5807_set_frequency (bus_with []) 107999) = 0"
    by (simp add: set_frequency_in_band [OF lo hi] update_reg_success_iff completes_def
        after_read_def bus_with_def)
  note t = set_frequency_channel_index [of 107999 "bus_with []", THEN conjunct2, THEN mp,
      OF conjI, OF lo hi]
  show ?thesis
    using lo hi ok t by simp
qed

text \<open>
  C3. For a frequency below 76000 kHz or above 108000 kHz, \<^verbatim>\<open>rda5807_set_frequency\<close>
  returns \<^verbatim>\<open>-ERANGE\<close>, which is -34, and leaves the bus as it was: no transfer is
  issued and no register changes.
\<close>

theorem set_frequency_out_of_band:
  assumes "unat f < 76000 \<or> 108000 < unat f"
  shows "rda5807_set_frequency radio f = (- 34, radio)
       \<and> - ERANGE = - 34
       \<and> xfers (snd (rda5807_set_frequency radio f)) = xfers radio
       \<and> regs (snd (rda5807_set_frequency radio f)) = regs radio"
proof -
  from assms have "f < RDA5807_FREQ_MIN_KHZ \<or> RDA5807_FREQ_MAX_KHZ < f"
    by (simp add: word_less_nat_alt RDA5807_FREQ_MIN_KHZ_def RDA5807_FREQ_MAX_KHZ_def)
  then have "rda5807_set_frequency radio f = (- ERANGE, radio)"
    by (auto simp: rda5807_set_frequency_def)
  then show ?thesis by (simp add: ERANGE_def)
qed

theorem set_frequency_out_of_band_witness:
  "(unat (75999 :: u32) < 76000 \<or> 108000 < unat (75999 :: u32))
   \<and> rda5807_set_frequency (bus_with []) 75999 = (- 34, bus_with [])
   \<and> (unat (108001 :: u32) < 76000 \<or> 108000 < unat (108001 :: u32))
   \<and> rda5807_set_frequency (bus_with []) 108001 = (- 34, bus_with [])
   \<and> xfers (snd (rda5807_set_frequency (bus_with []) 108001)) = []"
proof -
  have a: "unat (75999 :: u32) < 76000 \<or> 108000 < unat (75999 :: u32)" by simp
  have b: "unat (108001 :: u32) < 76000 \<or> 108000 < unat (108001 :: u32)" by simp
  show ?thesis
    using a b set_frequency_out_of_band [OF a, of "bus_with []"]
      set_frequency_out_of_band [OF b, of "bus_with []"]
    by (simp add: bus_with_def)
qed

text \<open>
  C10. For a frequency of the band the channel index is at most 640, so it fits the ten
  bits of the WRCHAN field: shifted left by 6, in the 32 bits it is computed in, it has
  no bit outside the WRCHAN mask, and the value that \<^verbatim>\<open>rda5807_set_frequency\<close> passes
  to \<^verbatim>\<open>rda5807_update_reg\<close> has no bit outside the mask it passes.
\<close>

theorem in_band_channel_fits_field:
  assumes lo: "RDA5807_FREQ_MIN_KHZ \<le> f" and hi: "f \<le> RDA5807_FREQ_MAX_KHZ"
  shows "unat (rda5807_chan_index f) = (unat f - 76000 + 25) div 50
       \<and> unat (rda5807_chan_index f) \<le> 640
       \<and> push_bit RDA5807_SHIFT_CHAN_WRCHAN (rda5807_chan_index f)
           AND NOT (ucast RDA5807_MASK_CHAN_WRCHAN) = 0
       \<and> rda5807_set_frequency radio f =
           rda5807_update_reg radio RDA5807_REG_CHAN
             (fst (rda5807_tune_fields f)) (snd (rda5807_tune_fields f))
       \<and> snd (rda5807_tune_fields f) AND NOT (fst (rda5807_tune_fields f)) = 0"
proof -
  have small: "unat (rda5807_chan_index f) < 1024"
    using chan_index_le [OF lo hi] by simp
  show ?thesis
    using chan_index_unat [OF lo hi] chan_index_le [OF lo hi] shifted_index_in_field [OF small]
      set_frequency_in_band [OF lo hi, of radio] tune_val_in_mask [of f]
    by simp
qed

theorem in_band_channel_fits_field_witness:
  "RDA5807_FREQ_MIN_KHZ \<le> 108000 \<and> 108000 \<le> RDA5807_FREQ_MAX_KHZ
   \<and> unat (rda5807_chan_index 108000) = 640
   \<and> push_bit RDA5807_SHIFT_CHAN_WRCHAN (rda5807_chan_index 108000)
       AND NOT (ucast RDA5807_MASK_CHAN_WRCHAN) = 0
   \<and> rda5807_tune_fields 108000 = (0xFFDF, 0xA01A)
   \<and> snd (rda5807_tune_fields 108000) AND NOT (fst (rda5807_tune_fields 108000)) = 0"
proof -
  have lo: "RDA5807_FREQ_MIN_KHZ \<le> 108000" and hi: "108000 \<le> RDA5807_FREQ_MAX_KHZ"
    by (simp_all add: RDA5807_FREQ_MIN_KHZ_def RDA5807_FREQ_MAX_KHZ_def)
  have v: "rda5807_tune_fields 108000 = (0xFFDF, 0xA01A)"
    by (simp add: rda5807_tune_fields_def rda5807_chan_index_def Let_def BIT_def
        RDA5807_FREQ_MIN_KHZ_def RDA5807_MASK_CHAN_BAND_def RDA5807_SHIFT_CHAN_BAND_def
        RDA5807_MASK_CHAN_SPACE_def RDA5807_SHIFT_CHAN_SPACE_def RDA5807_MASK_CHAN_WRCHAN_def
        RDA5807_SHIFT_CHAN_WRCHAN_def RDA5807_MASK_CHAN_TUNE_def)
  show ?thesis
    using lo hi v in_band_channel_fits_field [OF lo hi, of "bus_with []"]
    by simp
qed

subsection \<open>Mute\<close>

lemma read_msgs_addr: "client_addr c' = client_addr c \<Longrightarrow> read_msgs c' reg = read_msgs c reg"
  by (simp add: read_msgs_def)

text \<open>
  Whatever the adapter answers, a read-modify-write starts with the read of its register,
  which at most the write follows, and keeps the address of the chip.
\<close>

lemma update_reg_trace:
  "client_addr (snd (rda5807_update_reg c reg msk val)) = client_addr c \<and>
   (\<exists>t. xfers (snd (rda5807_update_reg c reg msk val)) = xfers c @ read_msgs c reg # t)"
proof (cases "completes 2 c")
  case False
  then show ?thesis
    using read_fail [OF False, of reg] by (simp add: rda5807_update_reg_def Let_def)
next
  case r: True
  show ?thesis
  proof (cases "completes 1 (after_read c reg)")
    case True
    show ?thesis by (simp add: update_reg_ok [OF r True])
  next
    case False
    show ?thesis
      unfolding rda5807_update_reg_def Let_def read_ok [OF r] after_read_def [symmetric]
      using write_fail [OF False, of reg "val OR (regs c (reg_num reg) AND NOT msk)"]
      by (simp add: after_read_def)
  qed
qed

lemma lnot_cases: "lnot v = (if v = 0 then 1 else 0)"
  by (simp add: lnot_def)

text \<open>Unfolding the bus on a concrete state.\<close>

lemmas bus_eval =
  rda5807_update_reg_def rda5807_i2c_read_def rda5807_i2c_write_def i2c_transfer_def
  dev_msg_def be16_to_cpu_def bus_with_def chip_regs_def I2C_M_RD_def EIO_def Let_def

lemma DMUTE_eq: "RDA5807_MASK_CTRL_DMUTE = 0x4000"
  by (simp add: RDA5807_MASK_CTRL_DMUTE_def BIT_def)

lemma bit_DMUTE: "bit RDA5807_MASK_CTRL_DMUTE n \<longleftrightarrow> n = 14"
  by (simp add: RDA5807_MASK_CTRL_DMUTE_def bit_BIT)

lemma ENABLE_eq: "RDA5807_MASK_CTRL_ENABLE = 0x0001"
  by (simp add: RDA5807_MASK_CTRL_ENABLE_def BIT_def)

lemma bit_ENABLE: "bit RDA5807_MASK_CTRL_ENABLE n \<longleftrightarrow> n = 0"
  by (simp add: RDA5807_MASK_CTRL_ENABLE_def bit_BIT)

text \<open>The control register after the enable bit and then the mute bit were merged in.\<close>

lemma enable_then_mute:
  "(if v \<noteq> 0 then 0 else RDA5807_MASK_CTRL_DMUTE)
     OR (((if v = 0 then RDA5807_MASK_CTRL_ENABLE else 0)
            OR (cur AND NOT RDA5807_MASK_CTRL_ENABLE)) AND NOT RDA5807_MASK_CTRL_DMUTE)
   = (if v = 0 then RDA5807_MASK_CTRL_ENABLE OR RDA5807_MASK_CTRL_DMUTE else 0)
       OR (cur AND NOT (RDA5807_MASK_CTRL_ENABLE OR RDA5807_MASK_CTRL_DMUTE))"
  by (rule bit_word_eqI)
    (auto simp: bit_or_iff bit_and_iff bit_not_iff bit_ENABLE bit_DMUTE)

lemma update_reg_success:
  assumes "rda5807_update_reg c reg msk val = (0, c')"
  shows "c' = c\<lparr>xfers := xfers c @ [read_msgs c reg,
                 write_msgs c reg (val OR (regs c (reg_num reg) AND NOT msk))],
           script := tl (tl (script c)),
           regs := (regs c)(reg_num reg := val OR (regs c (reg_num reg) AND NOT msk)),
           reg_sel := reg_num reg\<rparr>"
proof -
  from assms have "fst (rda5807_update_reg c reg msk val) = 0" by simp
  then have r: "completes 2 c" and w: "completes 1 (after_read c reg)"
    by (simp_all add: update_reg_success_iff)
  from assms update_reg_ok [OF r w, of msk val] show ?thesis by simp
qed

text \<open>
  C4. Setting the mute control performs two read-modify-write calls of the control
  register one after the other: \<^verbatim>\<open>rda5807_set_enable\<close> with the negated value, which is
  the update with the ENABLE mask whose value has the bit exactly when unmuting, and then
  \<^verbatim>\<open>rda5807_set_mute\<close>, the update with the DMUTE mask, on the state the first one
  leaves. Each of them issues at least the read of the control register, so the second
  is attempted whether or not the first has failed; a call that succeeds has written its
  merge. The status returned is that of the first call when it is not zero, and that of
  the second otherwise. When both succeed the register has ENABLE and DMUTE both set
  when unmuting and both clear when muting, and its other bits as before.
\<close>

theorem mute_compound:
  "\<exists>err1 radio1 err2 radio2 t1 t2.
      rda5807_set_enable radio (lnot v) = (err1, radio1)
    \<and> rda5807_update_reg radio RDA5807_REG_CTRL RDA5807_MASK_CTRL_ENABLE
          (if v = 0 then RDA5807_MASK_CTRL_ENABLE else 0) = (err1, radio1)
    \<and> rda5807_set_mute radio1 v = (err2, radio2)
    \<and> rda5807_update_reg radio1 RDA5807_REG_CTRL RDA5807_MASK_CTRL_DMUTE
          (if v \<noteq> 0 then 0 else RDA5807_MASK_CTRL_DMUTE) = (err2, radio2)
    \<and> rda5807_s_ctrl radio \<lparr>ctrl_id = V4L2_CID_AUDIO_MUTE, ctrl_val = v\<rparr>
        = (if err1 \<noteq> 0 then err1 else err2, radio2)
    \<and> xfers radio1 = xfers radio @ read_msgs radio RDA5807_REG_CTRL # t1
    \<and> xfers radio2 = xfers radio1 @ read_msgs radio RDA5807_REG_CTRL # t2
    \<and> (err1 = 0 \<longrightarrow>
          regs radio1 (reg_num RDA5807_REG_CTRL)
            = (if v = 0 then RDA5807_MASK_CTRL_ENABLE else 0)
                OR (regs radio (reg_num RDA5807_REG_CTRL) AND NOT RDA5807_MASK_CTRL_ENABLE)
        \<and> t1 = [write_msgs radio RDA5807_REG_CTRL (regs radio1 (reg_num RDA5807_REG_CTRL))])
    \<and> (err2 = 0 \<longrightarrow>
          regs radio2 (reg_num RDA5807_REG_CTRL)
            = (if v \<noteq> 0 then 0 else RDA5807_MASK_CTRL_DMUTE)
                OR (regs radio1 (reg_num RDA5807_REG_CTRL) AND NOT RDA5807_MASK_CTRL_DMUTE)
        \<and> t2 = [write_msgs radio RDA5807_REG_CTRL (regs radio2 (reg_num RDA5807_REG_CTRL))])
    \<and> (err1 = 0 \<and> err2 = 0 \<longrightarrow>
          regs radio2 (reg_num RDA5807_REG_CTRL)
            = (if v = 0 then RDA5807_MASK_CTRL_ENABLE OR RDA5807_MASK_CTRL_DMUTE else 0)
                OR (regs radio (reg_num RDA5807_REG_CTRL)
                      AND NOT (RDA5807_MASK_CTRL_ENABLE OR RDA5807_MASK_CTRL_DMUTE)))"
proof -
  let ?e = "if v = 0 then RDA5807_MASK_CTRL_ENABLE else 0"
  let ?d = "if v \<noteq> 0 then 0 else RDA5807_MASK_CTRL_DMUTE"
  let ?ctrl = "reg_num RDA5807_REG_CTRL"
  obtain err1 radio1 where e: "rda5807_set_enable radio (lnot v) = (err1, radio1)"
    by (cases "rda5807_set_enable radio (lnot v)")
  obtain err2 radio2 where m: "rda5807_set_mute radio1 v = (err2, radio2)"
    by (cases "rda5807_set_mute radio1 v")
  have ue: "rda5807_update_reg radio RDA5807_REG_CTRL RDA5807_MASK_CTRL_ENABLE ?e
      = (err1, radio1)"
    using e by (cases "v = 0") (simp_all add: rda5807_set_enable_def lnot_def)
  from m have um: "rda5807_update_reg radio1 RDA5807_REG_CTRL RDA5807_MASK_CTRL_DMUTE ?d
      = (err2, radio2)"
    by (simp add: rda5807_set_mute_def)
  from ue have a1: "client_addr radio1 = client_addr radio"
    and "\<exists>t. xfers radio1 = xfers radio @ read_msgs radio RDA5807_REG_CTRL # t"
    using update_reg_trace [of radio RDA5807_REG_CTRL RDA5807_MASK_CTRL_ENABLE ?e]
    by simp_all
  then obtain t1 where x1: "xfers radio1 = xfers radio @ read_msgs radio RDA5807_REG_CTRL # t1"
    by blast
  have rm: "read_msgs radio1 RDA5807_REG_CTRL = read_msgs radio RDA5807_REG_CTRL"
    and wm: "\<And>x. write_msgs radio1 RDA5807_REG_CTRL x = write_msgs radio RDA5807_REG_CTRL x"
    using a1 by (simp_all add: read_msgs_def write_msgs_def)
  from um have "\<exists>t. xfers radio2 = xfers radio1 @ read_msgs radio1 RDA5807_REG_CTRL # t"
    using update_reg_trace [of radio1 RDA5807_REG_CTRL RDA5807_MASK_CTRL_DMUTE ?d]
    by simp
  then obtain t2 where x2: "xfers radio2 = xfers radio1 @ read_msgs radio RDA5807_REG_CTRL # t2"
    unfolding rm by blast
  have s: "rda5807_s_ctrl radio \<lparr>ctrl_id = V4L2_CID_AUDIO_MUTE, ctrl_val = v\<rparr>
        = (if err1 \<noteq> 0 then err1 else err2, radio2)"
    by (simp add: rda5807_s_ctrl_def Let_def e m)
  have f1: "regs radio1 ?ctrl = ?e OR (regs radio ?ctrl AND NOT RDA5807_MASK_CTRL_ENABLE)
        \<and> t1 = [write_msgs radio RDA5807_REG_CTRL (regs radio1 ?ctrl)]"
    if "err1 = 0"
  proof -
    from ue that have "rda5807_update_reg radio RDA5807_REG_CTRL RDA5807_MASK_CTRL_ENABLE ?e
        = (0, radio1)" by simp
    from update_reg_success [OF this] x1 show ?thesis by simp
  qed
  have f2: "regs radio2 ?ctrl = ?d OR (regs radio1 ?ctrl AND NOT RDA5807_MASK_CTRL_DMUTE)
        \<and> t2 = [write_msgs radio RDA5807_REG_CTRL (regs radio2 ?ctrl)]"
    if "err2 = 0"
  proof -
    from um that have "rda5807_update_reg radio1 RDA5807_REG_CTRL RDA5807_MASK_CTRL_DMUTE ?d
        = (0, radio2)" by simp
    from update_reg_success [OF this] x2 show ?thesis by (simp add: rm wm)
  qed
  have f3: "regs radio2 ?ctrl
            = (if v = 0 then RDA5807_MASK_CTRL_ENABLE OR RDA5807_MASK_CTRL_DMUTE else 0)
                OR (regs radio ?ctrl
                      AND NOT (RDA5807_MASK_CTRL_ENABLE OR RDA5807_MASK_CTRL_DMUTE))"
    if "err1 = 0 \<and> err2 = 0"
  proof -
    from that f1 f2 have "regs radio2 ?ctrl
        = ?d OR ((?e OR (regs radio ?ctrl AND NOT RDA5807_MASK_CTRL_ENABLE))
                   AND NOT RDA5807_MASK_CTRL_DMUTE)"
      by simp
    then show ?thesis by (simp only: enable_then_mute)
  qed
  from e ue m um s x1 x2 f1 f2 f3 show ?thesis by blast
qed

text \<open>
  Muting the example chip, first when the adapter completes every transfer, then when it
  fails the first transfer with -6 and completes the others.
\<close>

theorem mute_compound_witness:
  "fst (rda5807_s_ctrl (bus_with []) \<lparr>ctrl_id = V4L2_CID_AUDIO_MUTE, ctrl_val = 1\<rparr>) = 0
   \<and> regs (bus_with []) 0x02 = 0xC001
   \<and> regs (snd (rda5807_s_ctrl (bus_with []) \<lparr>ctrl_id = V4L2_CID_AUDIO_MUTE, ctrl_val = 1\<rparr>)) 0x02
       = 0x8000
   \<and> xfers (snd (rda5807_s_ctrl (bus_with []) \<lparr>ctrl_id = V4L2_CID_AUDIO_MUTE, ctrl_val = 1\<rparr>))
       = [read_msgs (bus_with []) RDA5807_REG_CTRL, write_msgs (bus_with []) RDA5807_REG_CTRL 0xC000,
          read_msgs (bus_with []) RDA5807_REG_CTRL, write_msgs (bus_with []) RDA5807_REG_CTRL 0x8000]
   \<and> fst (rda5807_set_enable (bus_with [- 6]) (lnot 1)) = - 6
   \<and> fst (rda5807_set_mute (snd (rda5807_set_enable (bus_with [- 6]) (lnot 1))) 1) = 0
   \<and> fst (rda5807_s_ctrl (bus_with [- 6]) \<lparr>ctrl_id = V4L2_CID_AUDIO_MUTE, ctrl_val = 1\<rparr>) = - 6
   \<and> xfers (snd (rda5807_s_ctrl (bus_with [- 6]) \<lparr>ctrl_id = V4L2_CID_AUDIO_MUTE, ctrl_val = 1\<rparr>))
       = [read_msgs (bus_with []) RDA5807_REG_CTRL, read_msgs (bus_with []) RDA5807_REG_CTRL,
          write_msgs (bus_with []) RDA5807_REG_CTRL 0x8001]
   \<and> regs (snd (rda5807_s_ctrl (bus_with [- 6]) \<lparr>ctrl_id = V4L2_CID_AUDIO_MUTE, ctrl_val = 1\<rparr>)) 0x02
       = 0x8001"
proof -
  let ?mute = "\<lparr>ctrl_id = V4L2_CID_AUDIO_MUTE, ctrl_val = 1\<rparr>"
  let ?rd = "read_msgs (bus_with []) RDA5807_REG_CTRL"
  have both: "fst (rda5807_s_ctrl (bus_with []) ?mute) = 0
     \<and> regs (snd (rda5807_s_ctrl (bus_with []) ?mute)) 0x02 = 0x8000
     \<and> xfers (snd (rda5807_s_ctrl (bus_with []) ?mute))
         = [?rd, write_msgs (bus_with []) RDA5807_REG_CTRL 0xC000,
            ?rd, write_msgs (bus_with []) RDA5807_REG_CTRL 0x8000]"
  proof -
    obtain err1 radio1 err2 radio2 t1 t2 where
      ue: "rda5807_update_reg (bus_with []) RDA5807_REG_CTRL RDA5807_MASK_CTRL_ENABLE
             (if (1 :: s32) = 0 then RDA5807_MASK_CTRL_ENABLE else 0) = (err1, radio1)" and
      um: "rda5807_update_reg radio1 RDA5807_REG_CTRL RDA5807_MASK_CTRL_DMUTE
             (if (1 :: s32) \<noteq> 0 then 0 else RDA5807_MASK_CTRL_DMUTE) = (err2, radio2)" and
      s: "rda5807_s_ctrl (bus_with []) ?mute = (if err1 \<noteq> 0 then err1 else err2, radio2)" and
      x1: "xfers radio1 = xfers (bus_with []) @ ?rd # t1" and
      x2: "xfers radio2 = xfers radio1 @ ?rd # t2" and
      f1: "err1 = 0 \<longrightarrow>
            regs radio1 (reg_num RDA5807_REG_CTRL)
              = (if (1 :: s32) = 0 then RDA5807_MASK_CTRL_ENABLE else 0)
                  OR (regs (bus_with []) (reg_num RDA5807_REG_CTRL) AND NOT RDA5807_MASK_CTRL_ENABLE)
          \<and> t1 = [write_msgs (bus_with []) RDA5807_REG_CTRL (regs radio1 (reg_num RDA5807_REG_CTRL))]" and
      f2: "err2 = 0 \<longrightarrow>
            regs radio2 (reg_num RDA5807_REG_CTRL)
              = (if (1 :: s32) \<noteq> 0 then 0 else RDA5807_MASK_CTRL_DMUTE)
                  OR (regs radio1 (reg_num RDA5807_REG_CTRL) AND NOT RDA5807_MASK_CTRL_DMUTE)
          \<and> t2 = [write_msgs (bus_with []) RDA5807_REG_CTRL (regs radio2 (reg_num RDA5807_REG_CTRL))]"
      using mute_compound [of "bus_with []" 1] by blast
    have "fst (rda5807_update_reg (bus_with []) RDA5807_REG_CTRL RDA5807_MASK_CTRL_ENABLE 0) = 0"
      by (simp add: update_reg_success_iff completes_def after_read_def bus_with_def)
    with ue have e1: "err1 = 0" by simp
    from ue e1 have "rda5807_update_reg (bus_with []) RDA5807_REG_CTRL RDA5807_MASK_CTRL_ENABLE 0
        = (0, radio1)" by simp
    from update_reg_success [OF this] have sc: "script radio1 = []"
      by (simp add: bus_with_def)
    then have "fst (rda5807_update_reg radio1 RDA5807_REG_CTRL RDA5807_MASK_CTRL_DMUTE 0) = 0"
      by (simp add: update_reg_success_iff completes_def after_read_def)
    with um have e2: "err2 = 0" by simp
    from f1 e1 have r1: "regs radio1 (reg_num RDA5807_REG_CTRL) = 0xC000"
      and t1: "t1 = [write_msgs (bus_with []) RDA5807_REG_CTRL 0xC000]"
      by (simp_all add: bus_with_def chip_regs_def ENABLE_eq)
    from f2 e2 r1 have r2: "regs radio2 (reg_num RDA5807_REG_CTRL) = 0x8000"
      and t2: "t2 = [write_msgs (bus_with []) RDA5807_REG_CTRL 0x8000]"
      by (simp_all add: DMUTE_eq)
    from s e1 e2 r2 x1 x2 t1 t2 show ?thesis
      by (simp add: bus_with_def)
  qed
  have failing: "fst (rda5807_set_enable (bus_with [- 6]) (lnot 1)) = - 6
     \<and> fst (rda5807_set_mute (snd (rda5807_set_enable (bus_with [- 6]) (lnot 1))) 1) = 0
     \<and> fst (rda5807_s_ctrl (bus_with [- 6]) ?mute) = - 6
     \<and> xfers (snd (rda5807_s_ctrl (bus_with [- 6]) ?mute))
         = [?rd, ?rd, write_msgs (bus_with []) RDA5807_REG_CTRL 0x8001]
     \<and> regs (snd (rda5807_s_ctrl (bus_with [- 6]) ?mute)) 0x02 = 0x8001"
  proof -
    obtain err1 radio1 err2 radio2 where
      e: "rda5807_set_enable (bus_with [- 6]) (lnot 1) = (err1, radio1)" and
      m: "rda5807_set_mute radio1 1 = (err2, radio2)" and
      s: "rda5807_s_ctrl (bus_with [- 6]) ?mute = (if err1 \<noteq> 0 then err1 else err2, radio2)"
      using mute_compound [of "bus_with [- 6]" 1] by blast
    have e': "rda5807_set_enable (bus_with [- 6]) (lnot 1)
        = (- 6, (bus_with []) \<lparr>xfers := [?rd]\<rparr>)"
      by (simp add: rda5807_set_enable_def lnot_def bus_eval read_msgs_def)
    from e e' have r1: "err1 = - 6" "radio1 = (bus_with []) \<lparr>xfers := [?rd]\<rparr>"
      by simp_all
    have m': "fst (rda5807_set_mute radio1 1) = 0
      \<and> xfers (snd (rda5807_set_mute radio1 1))
          = [?rd, ?rd, write_msgs (bus_with []) RDA5807_REG_CTRL 0x8001]
      \<and> regs (snd (rda5807_set_mute radio1 1)) 0x02 = 0x8001"
      unfolding r1
      by (simp add: rda5807_set_mute_def bus_eval read_msgs_def write_msgs_def
          RDA5807_MASK_CTRL_DMUTE_def BIT_def)
    show ?thesis
      using e m s m' r1 by simp
  qed
  have "regs (bus_with []) 0x02 = 0xC001" by (simp add: bus_with_def chip_regs_def)
  with both failing show ?thesis by blast
qed

text \<open>
  C5. \<^verbatim>\<open>rda5807_set_mute\<close> is a read-modify-write of the control register whose mask is
  the DMUTE bit, bit 14, and whose value has that bit set exactly when \<open>muted\<close> is zero:
  clear to mute, set to unmute. After a successful call the bit in the register is set
  exactly when \<open>muted\<close> is zero and the other bits of the register are as before.
\<close>

theorem set_mute_dmute:
  "rda5807_set_mute radio muted
     = rda5807_update_reg radio RDA5807_REG_CTRL RDA5807_MASK_CTRL_DMUTE
         (if muted \<noteq> 0 then 0 else RDA5807_MASK_CTRL_DMUTE)
   \<and> RDA5807_MASK_CTRL_DMUTE = 0x4000
   \<and> (bit (if muted \<noteq> 0 then 0 else RDA5807_MASK_CTRL_DMUTE) 14 \<longleftrightarrow> muted = 0)
   \<and> (fst (rda5807_set_mute radio muted) = 0 \<longrightarrow>
        (bit (regs (snd (rda5807_set_mute radio muted)) (reg_num RDA5807_REG_CTRL)) 14
           \<longleftrightarrow> muted = 0)
      \<and> regs (snd (rda5807_set_mute radio muted)) (reg_num RDA5807_REG_CTRL)
            AND NOT RDA5807_MASK_CTRL_DMUTE
          = regs radio (reg_num RDA5807_REG_CTRL) AND NOT RDA5807_MASK_CTRL_DMUTE)"
proof (intro conjI impI)
  show d: "rda5807_set_mute radio muted
     = rda5807_update_reg radio RDA5807_REG_CTRL RDA5807_MASK_CTRL_DMUTE
         (if muted \<noteq> 0 then 0 else RDA5807_MASK_CTRL_DMUTE)"
    by (simp add: rda5807_set_mute_def)
  show "RDA5807_MASK_CTRL_DMUTE = 0x4000" by (rule DMUTE_eq)
  show "bit (if muted \<noteq> 0 then 0 else RDA5807_MASK_CTRL_DMUTE) 14 \<longleftrightarrow> muted = 0"
    by (simp add: bit_DMUTE)
  assume ok: "fst (rda5807_set_mute radio muted) = 0"
  then have r: "completes 2 radio" and w: "completes 1 (after_read radio RDA5807_REG_CTRL)"
    by (simp_all add: d update_reg_success_iff)
  note u = update_reg_ok [OF r w, of RDA5807_MASK_CTRL_DMUTE
      "if muted \<noteq> 0 then 0 else RDA5807_MASK_CTRL_DMUTE"]
  show "bit (regs (snd (rda5807_set_mute radio muted)) (reg_num RDA5807_REG_CTRL)) 14
           \<longleftrightarrow> muted = 0"
    unfolding d u by (simp add: bit_or_iff bit_and_iff bit_not_iff bit_DMUTE)
  show "regs (snd (rda5807_set_mute radio muted)) (reg_num RDA5807_REG_CTRL)
            AND NOT RDA5807_MASK_CTRL_DMUTE
          = regs radio (reg_num RDA5807_REG_CTRL) AND NOT RDA5807_MASK_CTRL_DMUTE"
    unfolding d u by (simp add: merge_outside)
qed

theorem set_mute_dmute_witness:
  "fst (rda5807_set_mute (bus_with []) 1) = 0
   \<and> regs (snd (rda5807_set_mute (bus_with []) 1)) 0x02 = 0x8001
   \<and> \<not> bit (regs (snd (rda5807_set_mute (bus_with []) 1)) (reg_num RDA5807_REG_CTRL)) 14
   \<and> fst (rda5807_set_mute ((bus_with []) \<lparr>regs := (\<lambda>r. 0x0001)\<rparr>) 0) = 0
   \<and> bit (regs (snd (rda5807_set_mute ((bus_with []) \<lparr>regs := (\<lambda>r. 0x0001)\<rparr>) 0))
            (reg_num RDA5807_REG_CTRL)) 14"
proof -
  have a: "fst (rda5807_set_mute (bus_with []) 1) = 0"
    and b: "fst (rda5807_set_mute ((bus_with []) \<lparr>regs := (\<lambda>r. 0x0001)\<rparr>) 0) = 0"
    by (simp_all add: rda5807_set_mute_def update_reg_success_iff completes_def after_read_def
        bus_with_def)
  have v: "regs (snd (rda5807_set_mute (bus_with []) 1)) 0x02 = 0x8001"
    by (simp add: rda5807_set_mute_def bus_eval RDA5807_MASK_CTRL_DMUTE_def BIT_def)
  note m = set_mute_dmute [THEN conjunct2, THEN conjunct2, THEN conjunct2, THEN mp]
  from m [OF a]
  have c: "\<not> bit (regs (snd (rda5807_set_mute (bus_with []) 1)) (reg_num RDA5807_REG_CTRL)) 14"
    by simp
  from m [OF b]
  have d: "bit (regs (snd (rda5807_set_mute ((bus_with []) \<lparr>regs := (\<lambda>r. 0x0001)\<rparr>) 0))
            (reg_num RDA5807_REG_CTRL)) 14"
    by simp
  from a b v c d show ?thesis by blast
qed

subsection \<open>Tuner status\<close>

text \<open>The tuner structure after a status query that succeeds.\<close>

lemma g_tuner_ok:
  assumes i: "index a = 0" and r1: "completes 2 radio"
    and r2: "completes 2 (after_read radio RDA5807_REG_SEEK_RESULT)"
  shows "fst (rda5807_vidioc_g_tuner radio a) = 0
    \<and> rxsubchans (fst (snd (rda5807_vidioc_g_tuner radio a))) =
        (if regs radio (reg_num RDA5807_REG_SEEK_RESULT)
              AND (RDA5807_MASK_SEEKRES_COMPLETE OR RDA5807_MASK_SEEKRES_FAIL)
            = RDA5807_MASK_SEEKRES_COMPLETE
         then (if regs radio (reg_num RDA5807_REG_SEEK_RESULT) AND RDA5807_MASK_SEEKRES_STEREO \<noteq> 0
               then V4L2_TUNER_SUB_STEREO else V4L2_TUNER_SUB_MONO)
         else V4L2_TUNER_SUB_MONO OR V4L2_TUNER_SUB_STEREO)
    \<and> signal (fst (snd (rda5807_vidioc_g_tuner radio a))) =
        push_bit 9 (ucast (drop_bit RDA5807_SHIFT_RSSI
          (regs radio (reg_num RDA5807_REG_SIGNAL) AND RDA5807_MASK_RSSI)))"
proof -
  have r2': "completes 2 (snd (rda5807_i2c_read radio RDA5807_REG_SEEK_RESULT))"
    using r2 by (simp add: read_ok [OF r1] after_read_def)
  show ?thesis
    unfolding rda5807_vidioc_g_tuner_def Let_def read_ok [OF r1] after_read_def [symmetric]
      fst_conv snd_conv read_ok [OF r2]
    by (simp add: i after_read_def)
qed

lemma g_tuner_fail:
  assumes "\<not> (index a = 0 \<and> completes 2 radio
              \<and> completes 2 (after_read radio RDA5807_REG_SEEK_RESULT))"
  shows "fst (rda5807_vidioc_g_tuner radio a) < 0"
proof (cases "index a = 0")
  case False
  then show ?thesis by (simp add: rda5807_vidioc_g_tuner_def EINVAL_def)
next
  case i: True
  show ?thesis
  proof (cases "completes 2 radio")
    case False
    then show ?thesis
      using read_fail [OF False, of RDA5807_REG_SEEK_RESULT]
      by (simp add: rda5807_vidioc_g_tuner_def Let_def i)
  next
    case r1: True
    with i assms have "\<not> completes 2 (after_read radio RDA5807_REG_SEEK_RESULT)" by simp
    then have "\<not> completes 2 (snd (rda5807_i2c_read radio RDA5807_REG_SEEK_RESULT))"
      by (simp add: read_ok [OF r1] after_read_def)
    from read_fail [OF this, of RDA5807_REG_SIGNAL] show ?thesis
      by (simp add: rda5807_vidioc_g_tuner_def Let_def i read_ok [OF r1])
  qed
qed

lemma g_tuner_success:
  assumes "fst (rda5807_vidioc_g_tuner radio a) = 0"
  shows "index a = 0 \<and> completes 2 radio \<and> completes 2 (after_read radio RDA5807_REG_SEEK_RESULT)"
  using assms g_tuner_fail [of a radio] by force

lemma and_BIT: "k < 16 \<Longrightarrow> s AND BIT k \<noteq> 0 \<longleftrightarrow> bit s k"
  by (auto simp: bit_eq_iff [where ?'a = "16 word"] bit_and_iff bit_BIT)

lemma complete_not_fail:
  "s AND (RDA5807_MASK_SEEKRES_COMPLETE OR RDA5807_MASK_SEEKRES_FAIL) = RDA5807_MASK_SEEKRES_COMPLETE
     \<longleftrightarrow> bit s 14 \<and> \<not> bit s 13"
  unfolding RDA5807_MASK_SEEKRES_COMPLETE_def RDA5807_MASK_SEEKRES_FAIL_def
proof
  assume e: "s AND (BIT 14 OR BIT 13) = BIT 14"
  have "bit (s AND (BIT 14 OR BIT 13)) 14 = bit (BIT 14) 14"
    and "bit (s AND (BIT 14 OR BIT 13)) 13 = bit (BIT 14) 13"
    by (simp_all only: e)
  then show "bit s 14 \<and> \<not> bit s 13"
    by (simp add: bit_and_iff bit_or_iff bit_BIT)
next
  assume "bit s 14 \<and> \<not> bit s 13"
  then show "s AND (BIT 14 OR BIT 13) = BIT 14"
    by (intro bit_word_eqI) (auto simp: bit_and_iff bit_or_iff bit_BIT)
qed

lemma sub_values:
  "V4L2_TUNER_SUB_MONO = 1 \<and> V4L2_TUNER_SUB_STEREO = 2
   \<and> V4L2_TUNER_SUB_MONO OR V4L2_TUNER_SUB_STEREO = 3"
  by (simp add: V4L2_TUNER_SUB_MONO_def V4L2_TUNER_SUB_STEREO_def)

text \<open>
  C6. When the status query succeeds, the sub-channels it reports are decided by the
  seek-result register as read: stereo exactly when the seek-complete bit is set, the
  seek-fail bit is clear and the stereo bit is set; mono exactly when complete is set,
  fail is clear and stereo is clear; and both mono and stereo, the ambiguous state,
  exactly when complete is clear or fail is set.
\<close>

theorem g_tuner_subchannels:
  assumes ok: "fst (rda5807_vidioc_g_tuner radio a) = 0"
  shows "(rxsubchans (fst (snd (rda5807_vidioc_g_tuner radio a))) = V4L2_TUNER_SUB_STEREO
            \<longleftrightarrow> regs radio (reg_num RDA5807_REG_SEEK_RESULT) AND RDA5807_MASK_SEEKRES_COMPLETE \<noteq> 0
              \<and> regs radio (reg_num RDA5807_REG_SEEK_RESULT) AND RDA5807_MASK_SEEKRES_FAIL = 0
              \<and> regs radio (reg_num RDA5807_REG_SEEK_RESULT) AND RDA5807_MASK_SEEKRES_STEREO \<noteq> 0)
       \<and> (rxsubchans (fst (snd (rda5807_vidioc_g_tuner radio a))) = V4L2_TUNER_SUB_MONO
            \<longleftrightarrow> regs radio (reg_num RDA5807_REG_SEEK_RESULT) AND RDA5807_MASK_SEEKRES_COMPLETE \<noteq> 0
              \<and> regs radio (reg_num RDA5807_REG_SEEK_RESULT) AND RDA5807_MASK_SEEKRES_FAIL = 0
              \<and> regs radio (reg_num RDA5807_REG_SEEK_RESULT) AND RDA5807_MASK_SEEKRES_STEREO = 0)
       \<and> (rxsubchans (fst (snd (rda5807_vidioc_g_tuner radio a)))
              = V4L2_TUNER_SUB_MONO OR V4L2_TUNER_SUB_STEREO
            \<longleftrightarrow> regs radio (reg_num RDA5807_REG_SEEK_RESULT) AND RDA5807_MASK_SEEKRES_COMPLETE = 0
              \<or> regs radio (reg_num RDA5807_REG_SEEK_RESULT) AND RDA5807_MASK_SEEKRES_FAIL \<noteq> 0)"
proof -
  let ?s = "regs radio (reg_num RDA5807_REG_SEEK_RESULT)"
  from g_tuner_success [OF ok] have i: "index a = 0" and r1: "completes 2 radio"
    and r2: "completes 2 (after_read radio RDA5807_REG_SEEK_RESULT)" by simp_all
  note rx = g_tuner_ok [OF i r1 r2, THEN conjunct2, THEN conjunct1]
  have c: "?s AND RDA5807_MASK_SEEKRES_COMPLETE \<noteq> 0 \<longleftrightarrow> bit ?s 14"
    and f: "?s AND RDA5807_MASK_SEEKRES_FAIL \<noteq> 0 \<longleftrightarrow> bit ?s 13"
    and st: "?s AND RDA5807_MASK_SEEKRES_STEREO \<noteq> 0 \<longleftrightarrow> bit ?s 10"
    by (simp_all only: RDA5807_MASK_SEEKRES_COMPLETE_def RDA5807_MASK_SEEKRES_FAIL_def
        RDA5807_MASK_SEEKRES_STEREO_def and_BIT)
  from c f st have c': "?s AND RDA5807_MASK_SEEKRES_COMPLETE = 0 \<longleftrightarrow> \<not> bit ?s 14"
    and f': "?s AND RDA5807_MASK_SEEKRES_FAIL = 0 \<longleftrightarrow> \<not> bit ?s 13"
    and st': "?s AND RDA5807_MASK_SEEKRES_STEREO = 0 \<longleftrightarrow> \<not> bit ?s 10"
    by blast+
  show ?thesis
    unfolding rx complete_not_fail c f st c' f' st'
    by (simp add: sub_values)
qed

theorem g_tuner_subchannels_witness:
  "fst (rda5807_vidioc_g_tuner (bus_with []) blank_tuner) = 0
   \<and> regs (bus_with []) (reg_num RDA5807_REG_SEEK_RESULT) = 0x4400
   \<and> rxsubchans (fst (snd (rda5807_vidioc_g_tuner (bus_with []) blank_tuner))) = V4L2_TUNER_SUB_STEREO
   \<and> fst (rda5807_vidioc_g_tuner ((bus_with []) \<lparr>regs := (\<lambda>r. 0x6400)\<rparr>) blank_tuner) = 0
   \<and> rxsubchans (fst (snd (rda5807_vidioc_g_tuner ((bus_with []) \<lparr>regs := (\<lambda>r. 0x6400)\<rparr>) blank_tuner)))
        = V4L2_TUNER_SUB_MONO OR V4L2_TUNER_SUB_STEREO
   \<and> fst (rda5807_vidioc_g_tuner ((bus_with []) \<lparr>regs := (\<lambda>r. 0x4000)\<rparr>) blank_tuner) = 0
   \<and> rxsubchans (fst (snd (rda5807_vidioc_g_tuner ((bus_with []) \<lparr>regs := (\<lambda>r. 0x4000)\<rparr>) blank_tuner)))
        = V4L2_TUNER_SUB_MONO"
proof -
  have a: "fst (rda5807_vidioc_g_tuner (bus_with []) blank_tuner) = 0"
    and b: "fst (rda5807_vidioc_g_tuner ((bus_with []) \<lparr>regs := (\<lambda>r. 0x6400)\<rparr>) blank_tuner) = 0"
    and c: "fst (rda5807_vidioc_g_tuner ((bus_with []) \<lparr>regs := (\<lambda>r. 0x4000)\<rparr>) blank_tuner) = 0"
    by (simp_all add: g_tuner_ok blank_tuner_def completes_def after_read_def bus_with_def)
  have m: "RDA5807_MASK_SEEKRES_COMPLETE = 0x4000" "RDA5807_MASK_SEEKRES_FAIL = 0x2000"
    "RDA5807_MASK_SEEKRES_STEREO = 0x0400"
    by (simp_all add: RDA5807_MASK_SEEKRES_COMPLETE_def RDA5807_MASK_SEEKRES_FAIL_def
        RDA5807_MASK_SEEKRES_STEREO_def BIT_def)
  have v: "regs (bus_with []) (reg_num RDA5807_REG_SEEK_RESULT) = 0x4400"
    by (simp add: bus_with_def chip_regs_def)
  from g_tuner_subchannels [OF a]
  have a': "rxsubchans (fst (snd (rda5807_vidioc_g_tuner (bus_with []) blank_tuner))) = V4L2_TUNER_SUB_STEREO"
    unfolding v m by simp
  from g_tuner_subchannels [OF b]
  have b': "rxsubchans (fst (snd (rda5807_vidioc_g_tuner ((bus_with []) \<lparr>regs := (\<lambda>r. 0x6400)\<rparr>) blank_tuner)))
        = V4L2_TUNER_SUB_MONO OR V4L2_TUNER_SUB_STEREO"
    unfolding m by simp
  from g_tuner_subchannels [OF c]
  have c': "rxsubchans (fst (snd (rda5807_vidioc_g_tuner ((bus_with []) \<lparr>regs := (\<lambda>r. 0x4000)\<rparr>) blank_tuner)))
        = V4L2_TUNER_SUB_MONO"
    unfolding m by simp
  from a b c v a' b' c' show ?thesis by blast
qed

lemma RSSI_eq: "RDA5807_MASK_RSSI = push_bit 9 (mask 7)"
  by (simp add: RDA5807_MASK_RSSI_def RDA5807_SHIFT_RSSI_def mask_eq_exp_minus_1)

lemma rssi_field: "drop_bit RDA5807_SHIFT_RSSI (v AND RDA5807_MASK_RSSI) = take_bit 7 (drop_bit 9 v)"
  unfolding RSSI_eq RDA5807_SHIFT_RSSI_def
  by (rule bit_word_eqI) (auto simp: bit_simps)

lemma rssi_bound: "unat (take_bit 7 (x :: u16)) < 128"
proof -
  have "unat (take_bit 7 x) = take_bit 7 (unat x)" by (rule unsigned_take_bit_eq)
  moreover have "take_bit 7 (unat x) < 2 ^ 7" by (rule take_bit_nat_less_exp)
  ultimately show ?thesis by simp
qed

lemma scaled_rssi:
  assumes "unat (r :: u16) < 128"
  shows "sint (push_bit 9 (ucast r) :: s32) = int (unat r) * 2 ^ 9"
proof -
  have un: "uint r = int (unat r)" by (rule uint_nat)
  from assms have b: "uint r < 128" "0 \<le> uint r" unfolding un by linarith+
  then have b32': "uint r < 2 ^ 32" "uint r * 2 ^ 9 < 2 ^ 32" "uint r * 2 ^ 9 < 2 ^ 31"
    "0 \<le> uint r * 2 ^ 9"
    by simp_all
  have "- (2 ^ 31) \<le> (0 :: int)" by simp
  from this b32'(4) have "- (2 ^ 31) \<le> uint r * 2 ^ 9" by (rule order_trans)
  note b32 = b32' this
  have "uint (ucast r :: s32) = take_bit LENGTH(32) (uint r)"
    by (rule unsigned_ucast_eq)
  also have "\<dots> = uint r"
    by (rule take_bit_int_eq_self) (use b b32 in simp_all)
  finally have u: "uint (ucast r :: s32) = uint r" .
  have "uint (push_bit 9 (ucast r) :: s32) = take_bit LENGTH(32) (push_bit 9 (uint (ucast r :: s32)))"
    by (rule unsigned_push_bit_eq)
  also have "\<dots> = take_bit LENGTH(32) (uint r * 2 ^ 9)"
    by (simp only: u push_bit_eq_mult)
  also have "\<dots> = uint r * 2 ^ 9"
    by (rule take_bit_int_eq_self) (use b32 in simp_all)
  finally have p: "uint (push_bit 9 (ucast r) :: s32) = uint r * 2 ^ 9" .
  have "sint (push_bit 9 (ucast r) :: s32)
          = signed_take_bit (LENGTH(32) - Suc 0) (uint (push_bit 9 (ucast r) :: s32))"
    by (rule sint_uint)
  also have "\<dots> = signed_take_bit 31 (uint r * 2 ^ 9)"
    by (simp only: p) simp
  also have "\<dots> = uint r * 2 ^ 9"
    by (rule signed_take_bit_int_eq_self) (use b32 in simp_all)
  finally show ?thesis by (simp only: un)
qed

text \<open>
  C7. When the status query succeeds, the signal level it reports is the RSSI field of
  the signal register as read, multiplied by \<open>2 ^ 9\<close>; the field is the seven bits
  from bit 9 on, so a value below \<open>2 ^ 7\<close>.
\<close>

theorem g_tuner_signal:
  assumes ok: "fst (rda5807_vidioc_g_tuner radio a) = 0"
  shows "sint (signal (fst (snd (rda5807_vidioc_g_tuner radio a))))
           = int (unat (drop_bit RDA5807_SHIFT_RSSI
                          (regs radio (reg_num RDA5807_REG_SIGNAL) AND RDA5807_MASK_RSSI))) * 2 ^ 9
       \<and> drop_bit RDA5807_SHIFT_RSSI (regs radio (reg_num RDA5807_REG_SIGNAL) AND RDA5807_MASK_RSSI)
           = take_bit 7 (drop_bit 9 (regs radio (reg_num RDA5807_REG_SIGNAL)))
       \<and> unat (drop_bit RDA5807_SHIFT_RSSI
                 (regs radio (reg_num RDA5807_REG_SIGNAL) AND RDA5807_MASK_RSSI)) < 2 ^ 7"
proof -
  from g_tuner_success [OF ok] have i: "index a = 0" and r1: "completes 2 radio"
    and r2: "completes 2 (after_read radio RDA5807_REG_SEEK_RESULT)" by simp_all
  note sg = g_tuner_ok [OF i r1 r2, THEN conjunct2, THEN conjunct2]
  have b: "unat (drop_bit RDA5807_SHIFT_RSSI
                 (regs radio (reg_num RDA5807_REG_SIGNAL) AND RDA5807_MASK_RSSI)) < 128"
    unfolding rssi_field by (rule rssi_bound)
  show ?thesis
    unfolding sg using scaled_rssi [OF b] b rssi_field by simp
qed

theorem g_tuner_signal_witness:
  "fst (rda5807_vidioc_g_tuner (bus_with []) blank_tuner) = 0
   \<and> regs (bus_with []) (reg_num RDA5807_REG_SIGNAL) = 0x6A55
   \<and> drop_bit RDA5807_SHIFT_RSSI (0x6A55 AND RDA5807_MASK_RSSI) = 53
   \<and> sint (signal (fst (snd (rda5807_vidioc_g_tuner (bus_with []) blank_tuner)))) = 53 * 2 ^ 9"
proof -
  have a: "fst (rda5807_vidioc_g_tuner (bus_with []) blank_tuner) = 0"
    by (simp add: g_tuner_ok blank_tuner_def completes_def after_read_def bus_with_def)
  have v: "regs (bus_with []) (reg_num RDA5807_REG_SIGNAL) = 0x6A55"
    by (simp add: bus_with_def chip_regs_def)
  have f: "drop_bit RDA5807_SHIFT_RSSI (0x6A55 AND RDA5807_MASK_RSSI) = 53"
    by (simp add: RDA5807_MASK_RSSI_def RDA5807_SHIFT_RSSI_def)
  from g_tuner_signal [OF a, THEN conjunct1]
  have s: "sint (signal (fst (snd (rda5807_vidioc_g_tuner (bus_with []) blank_tuner)))) = 53 * 2 ^ 9"
    unfolding v f by simp
  from a v f s show ?thesis by blast
qed

subsection \<open>Probe\<close>

lemma read_xfers:
  "xfers (snd (rda5807_i2c_read c reg)) = xfers c @ [read_msgs c reg]"
proof (cases "completes 2 c")
  case True
  then show ?thesis by (simp add: read_ok)
next
  case False
  then show ?thesis using read_fail [OF False, of reg] by simp
qed

lemma update_reg_extends:
  "\<exists>t. xfers (snd (rda5807_update_reg c reg msk val)) = xfers c @ t"
  using update_reg_trace [of c reg msk val] by auto

lemma s_ctrl_extends:
  "\<exists>t. xfers (snd (rda5807_s_ctrl c ctrl)) = xfers c @ t"
proof -
  have m: "\<exists>t. xfers (snd (rda5807_set_mute
              (snd (rda5807_set_enable c (lnot (ctrl_val ctrl)))) (ctrl_val ctrl))) = xfers c @ t"
  proof -
    obtain t1 where "xfers (snd (rda5807_set_enable c (lnot (ctrl_val ctrl)))) = xfers c @ t1"
      unfolding rda5807_set_enable_def Let_def using update_reg_extends by blast
    moreover obtain t2 where "xfers (snd (rda5807_set_mute
              (snd (rda5807_set_enable c (lnot (ctrl_val ctrl)))) (ctrl_val ctrl)))
        = xfers (snd (rda5807_set_enable c (lnot (ctrl_val ctrl)))) @ t2"
      unfolding rda5807_set_mute_def Let_def using update_reg_extends by blast
    ultimately show ?thesis by simp
  qed
  show ?thesis
    using m update_reg_extends
    by (simp add: rda5807_s_ctrl_def Let_def rda5807_set_volume_def rda5807_set_preemphasis_def)
qed

lemma handler_setup_extends:
  "\<exists>t. xfers (snd (v4l2_ctrl_handler_setup hdl c)) = xfers c @ t"
proof (induction hdl arbitrary: c)
  case Nil
  show ?case by simp
next
  case (Cons ctrl rest)
  obtain t1 where a: "xfers (snd (rda5807_s_ctrl c ctrl)) = xfers c @ t1"
    using s_ctrl_extends by blast
  obtain t2 where b: "xfers (snd (v4l2_ctrl_handler_setup rest (snd (rda5807_s_ctrl c ctrl))))
      = xfers (snd (rda5807_s_ctrl c ctrl)) @ t2"
    using Cons.IH by blast
  show ?case
    using a b by (simp add: Let_def)
qed

lemma probe_reads_chipid_first:
  "\<exists>t. xfers (snd (snd (snd (rda5807_i2c_probe h client))))
         = xfers client @ read_msgs client RDA5807_REG_CHIPID # t"
proof -
  let ?c = "snd (rda5807_i2c_read client RDA5807_REG_CHIPID)"
  have x: "xfers ?c = xfers client @ [read_msgs client RDA5807_REG_CHIPID]"
    by (rule read_xfers)
  have "\<And>hdl. \<exists>t. xfers (snd (v4l2_ctrl_handler_setup hdl ?c))
                  = xfers client @ read_msgs client RDA5807_REG_CHIPID # t"
    using handler_setup_extends [of _ ?c] unfolding x by simp
  then show ?thesis
    unfolding rda5807_i2c_probe_def Let_def
    by (simp add: x del: v4l2_ctrl_handler_setup.simps)
qed

lemma FF00_eq: "(0xFF00 :: u16) = push_bit 8 (mask 8)"
  by (simp add: mask_eq_exp_minus_1)

lemma high_byte: "(v :: u16) AND 0xFF00 = push_bit 8 (drop_bit 8 v)"
  unfolding FF00_eq by (rule bit_word_eqI) (auto simp: bit_simps)

lemma drop_push_high: "drop_bit 8 (push_bit 8 (drop_bit 8 v)) = drop_bit 8 (v :: u16)"
  by (rule bit_word_eqI) (auto simp: bit_simps dest: bit_imp_le_length)

lemma chipid_test:
  "uint (v :: u16) AND 0xFF00 \<noteq> 0x5800 \<longleftrightarrow> drop_bit 8 v \<noteq> 0x58"
proof -
  have "uint v AND 0xFF00 = uint (v AND 0xFF00)"
    by (simp add: uint_and)
  moreover have "uint (v AND 0xFF00) = 0x5800 \<longleftrightarrow> v AND 0xFF00 = 0x5800"
  proof -
    have u: "uint (0x5800 :: u16) = 0x5800" by simp
    show ?thesis by (simp only: word_uint_eq_iff [of _ "0x5800 :: u16"] u)
  qed
  moreover have "v AND 0xFF00 = 0x5800 \<longleftrightarrow> drop_bit 8 v = 0x58"
  proof
    assume "v AND 0xFF00 = 0x5800"
    then have "drop_bit 8 (push_bit 8 (drop_bit 8 v)) = drop_bit 8 (0x5800 :: u16)"
      by (simp only: high_byte)
    then show "drop_bit 8 v = 0x58" by (simp add: drop_push_high)
  next
    assume "drop_bit 8 v = 0x58"
    then show "v AND 0xFF00 = 0x5800" by (simp add: high_byte)
  qed
  ultimately show ?thesis by simp
qed

lemma probe_mismatch:
  assumes r: "completes 2 client"
    and m: "drop_bit 8 (regs client (reg_num RDA5807_REG_CHIPID)) \<noteq> 0x58"
  shows "rda5807_i2c_probe h client = (- ENODEV, None, h, after_read client RDA5807_REG_CHIPID)"
proof -
  have "uint (regs client (reg_num RDA5807_REG_CHIPID)) AND 0xFF00 \<noteq> 0x5800"
    using m by (simp add: chipid_test)
  then show ?thesis
    unfolding rda5807_i2c_probe_def Let_def read_ok [OF r] after_read_def [symmetric] fst_conv snd_conv
    by simp
qed

lemma probe_match_allocates:
  assumes r: "completes 2 client"
    and m: "drop_bit 8 (regs client (reg_num RDA5807_REG_CHIPID)) = 0x58"
  shows "\<exists>cs. calls (fst (snd (snd (rda5807_i2c_probe h client)))) = calls h @ Kzalloc # cs"
proof -
  have "\<not> uint (regs client (reg_num RDA5807_REG_CHIPID)) AND 0xFF00 \<noteq> 0x5800"
    using m by (simp add: chipid_test)
  then show ?thesis
    unfolding rda5807_i2c_probe_def Let_def read_ok [OF r] after_read_def [symmetric] fst_conv snd_conv
    by (simp add: called_def err_ctrl_free_def err_video_unreg_def
        del: v4l2_ctrl_handler_setup.simps)
qed

text \<open>
  C8. The first transfer of \<^verbatim>\<open>rda5807_i2c_probe\<close> is the read of the chip-ID register,
  whatever follows. When that read completes and the high byte of the identifier is not
  0x58, probing returns \<^verbatim>\<open>-ENODEV\<close>, which is -19, with no driver data; the host has
  received no call, so nothing was allocated and no control registered, and the bus has
  carried that one read and no register has changed. With the high byte 0x58 the next
  thing probing does is to allocate.
\<close>

theorem probe_chip_id_gate:
  "(\<exists>t. xfers (snd (snd (snd (rda5807_i2c_probe h client))))
          = xfers client @ read_msgs client RDA5807_REG_CHIPID # t)
   \<and> (completes 2 client \<and> drop_bit 8 (regs client (reg_num RDA5807_REG_CHIPID)) \<noteq> 0x58 \<longrightarrow>
        rda5807_i2c_probe h client = (- ENODEV, None, h, after_read client RDA5807_REG_CHIPID)
      \<and> - ENODEV = - 19
      \<and> calls (fst (snd (snd (rda5807_i2c_probe h client)))) = calls h
      \<and> xfers (snd (snd (snd (rda5807_i2c_probe h client))))
          = xfers client @ [read_msgs client RDA5807_REG_CHIPID]
      \<and> regs (snd (snd (snd (rda5807_i2c_probe h client)))) = regs client)
   \<and> (completes 2 client \<and> drop_bit 8 (regs client (reg_num RDA5807_REG_CHIPID)) = 0x58 \<longrightarrow>
        (\<exists>cs. calls (fst (snd (snd (rda5807_i2c_probe h client)))) = calls h @ Kzalloc # cs))"
  using probe_reads_chipid_first [of h client] probe_match_allocates [of client h]
  by (auto simp: probe_mismatch ENODEV_def after_read_def)

theorem probe_chip_id_gate_witness:
  "completes 2 ((bus_with []) \<lparr>regs := (\<lambda>r. 0x5704)\<rparr>)
   \<and> drop_bit 8 (regs ((bus_with []) \<lparr>regs := (\<lambda>r. 0x5704)\<rparr>) (reg_num RDA5807_REG_CHIPID)) \<noteq> 0x58
   \<and> fst (rda5807_i2c_probe host_ok ((bus_with []) \<lparr>regs := (\<lambda>r. 0x5704)\<rparr>)) = - 19
   \<and> fst (snd (rda5807_i2c_probe host_ok ((bus_with []) \<lparr>regs := (\<lambda>r. 0x5704)\<rparr>))) = None
   \<and> calls (fst (snd (snd (rda5807_i2c_probe host_ok ((bus_with []) \<lparr>regs := (\<lambda>r. 0x5704)\<rparr>))))) = []
   \<and> xfers (snd (snd (snd (rda5807_i2c_probe host_ok ((bus_with []) \<lparr>regs := (\<lambda>r. 0x5704)\<rparr>)))))
       = [read_msgs (bus_with []) RDA5807_REG_CHIPID]"
proof -
  let ?b = "(bus_with []) \<lparr>regs := (\<lambda>r. 0x5704)\<rparr>"
  have r: "completes 2 ?b" by (simp add: completes_def bus_with_def)
  have m: "drop_bit 8 (regs ?b (reg_num RDA5807_REG_CHIPID)) \<noteq> 0x58" by (simp add: drop_bit_eq_div)
  from probe_chip_id_gate [of host_ok ?b, THEN conjunct2, THEN conjunct1, THEN mp, OF conjI, OF r m]
  have "fst (rda5807_i2c_probe host_ok ?b) = - 19
    \<and> fst (snd (rda5807_i2c_probe host_ok ?b)) = None
    \<and> calls (fst (snd (snd (rda5807_i2c_probe host_ok ?b)))) = []
    \<and> xfers (snd (snd (snd (rda5807_i2c_probe host_ok ?b)))) = [read_msgs (bus_with []) RDA5807_REG_CHIPID]"
    by (simp add: host_ok_def ENODEV_def bus_with_def read_msgs_def after_read_def)
  with r m show ?thesis by blast
qed

text \<open>Probing the example chip with a willing host succeeds, and muted.\<close>

lemma probe_example:
  "fst (rda5807_i2c_probe host_ok (bus_with [])) = 0
   \<and> fst (snd (rda5807_i2c_probe host_ok (bus_with [])))
       = Some \<lparr>ctrl_handler = [\<lparr>ctrl_id = V4L2_CID_AUDIO_MUTE, ctrl_val = 1\<rparr>,
                                 \<lparr>ctrl_id = V4L2_CID_AUDIO_VOLUME, ctrl_val = 8\<rparr>,
                                 \<lparr>ctrl_id = V4L2_CID_TUNE_PREEMPHASIS, ctrl_val = 1\<rparr>]\<rparr>
   \<and> calls (fst (snd (snd (rda5807_i2c_probe host_ok (bus_with [])))))
       = [Kzalloc, V4l2_ctrl_handler_init, V4l2_ctrl_new V4L2_CID_AUDIO_MUTE,
          V4l2_ctrl_new V4L2_CID_AUDIO_VOLUME, V4l2_ctrl_new V4L2_CID_TUNE_PREEMPHASIS,
          Video_register_device, V4l2_ctrl_handler_setup]
   \<and> map (regs (snd (snd (snd (rda5807_i2c_probe host_ok (bus_with [])))))) [0x02, 0x04, 0x05]
       = [0x8000, 0x0800, 0x8888]
   \<and> length (xfers (snd (snd (snd (rda5807_i2c_probe host_ok (bus_with [])))))) = 9"
  by (simp add: rda5807_i2c_probe_def host_ok_def called_def v4l2_ctrl_new_std_def
      v4l2_ctrl_new_std_menu_def rda5807_s_ctrl_def rda5807_set_enable_def rda5807_set_mute_def
      rda5807_set_volume_def rda5807_set_preemphasis_def lnot_def bus_eval BIT_def
      V4L2_CID_AUDIO_MUTE_def V4L2_CID_AUDIO_VOLUME_def V4L2_CID_TUNE_PREEMPHASIS_def
      V4L2_PREEMPHASIS_50_uS_def V4L2_PREEMPHASIS_75_uS_def V4L2_PREEMPHASIS_DISABLED_def
      RDA5807_MASK_CTRL_ENABLE_def RDA5807_MASK_CTRL_DMUTE_def RDA5807_MASK_VOLUME_DAC_def
      RDA5807_SHIFT_VOLUME_DAC_def RDA5807_MASK_DEEMPHASIS_def)

text \<open>
  When the video device cannot be registered, probing fails after the driver data was
  attached: it is freed and stays attached.
\<close>

lemma probe_register_failure_example:
  "fst (rda5807_i2c_probe (host_ok \<lparr>video_register_status := - 16\<rparr>) (bus_with [])) = - 16
   \<and> fst (snd (rda5807_i2c_probe (host_ok \<lparr>video_register_status := - 16\<rparr>) (bus_with [])))
       = Some \<lparr>ctrl_handler = [\<lparr>ctrl_id = V4L2_CID_AUDIO_MUTE, ctrl_val = 1\<rparr>,
                                 \<lparr>ctrl_id = V4L2_CID_AUDIO_VOLUME, ctrl_val = 8\<rparr>,
                                 \<lparr>ctrl_id = V4L2_CID_TUNE_PREEMPHASIS, ctrl_val = 1\<rparr>]\<rparr>
   \<and> calls (fst (snd (snd (rda5807_i2c_probe (host_ok \<lparr>video_register_status := - 16\<rparr>)
                              (bus_with [])))))
       = [Kzalloc, V4l2_ctrl_handler_init, V4l2_ctrl_new V4L2_CID_AUDIO_MUTE,
          V4l2_ctrl_new V4L2_CID_AUDIO_VOLUME, V4l2_ctrl_new V4L2_CID_TUNE_PREEMPHASIS,
          Video_register_device, V4l2_ctrl_handler_free, Video_device_release_empty, Kfree]
   \<and> length (xfers (snd (snd (snd (rda5807_i2c_probe (host_ok \<lparr>video_register_status := - 16\<rparr>)
                                       (bus_with [])))))) = 1"
  by (simp add: rda5807_i2c_probe_def host_ok_def called_def err_ctrl_free_def
      v4l2_ctrl_new_std_def v4l2_ctrl_new_std_menu_def bus_eval
      V4L2_PREEMPHASIS_50_uS_def V4L2_PREEMPHASIS_75_uS_def V4L2_PREEMPHASIS_DISABLED_def
      del: v4l2_ctrl_handler_setup.simps)

subsection \<open>Resume\<close>

text \<open>
  C9. \<^verbatim>\<open>rda5807_resume\<close> asks the control handler for the mute control and its current
  value. When the value is not zero, the radio being muted, it returns success and the
  bus is as it was: no transfer, so no write. When the value is zero it is
  \<^verbatim>\<open>rda5807_set_enable\<close> with 1, the read-modify-write that sets the ENABLE bit of the
  control register.
\<close>

theorem resume_follows_mute:
  assumes f: "v4l2_ctrl_find (ctrl_handler radio) V4L2_CID_AUDIO_MUTE = Some mute_ctrl"
  shows "(ctrl_val mute_ctrl \<noteq> 0 \<longrightarrow> rda5807_resume radio client = Some (0, client))
       \<and> (ctrl_val mute_ctrl = 0 \<longrightarrow>
            rda5807_resume radio client = Some (rda5807_set_enable client 1)
          \<and> rda5807_set_enable client 1
              = rda5807_update_reg client RDA5807_REG_CTRL RDA5807_MASK_CTRL_ENABLE
                  RDA5807_MASK_CTRL_ENABLE)"
  by (simp add: rda5807_resume_def f v4l2_ctrl_g_ctrl_def lnot_def Let_def rda5807_set_enable_def)

text \<open>Resuming with the controls that probing the example chip has left, and unmuted.\<close>

theorem resume_follows_mute_witness:
  "v4l2_ctrl_find (ctrl_handler (the (fst (snd (rda5807_i2c_probe host_ok (bus_with []))))))
       V4L2_CID_AUDIO_MUTE = Some \<lparr>ctrl_id = V4L2_CID_AUDIO_MUTE, ctrl_val = 1\<rparr>
   \<and> rda5807_resume (the (fst (snd (rda5807_i2c_probe host_ok (bus_with []))))) (bus_with [])
       = Some (0, bus_with [])
   \<and> v4l2_ctrl_find [\<lparr>ctrl_id = V4L2_CID_AUDIO_MUTE, ctrl_val = 0\<rparr>] V4L2_CID_AUDIO_MUTE
       = Some \<lparr>ctrl_id = V4L2_CID_AUDIO_MUTE, ctrl_val = 0\<rparr>
   \<and> fst (the (rda5807_resume \<lparr>ctrl_handler = [\<lparr>ctrl_id = V4L2_CID_AUDIO_MUTE, ctrl_val = 0\<rparr>]\<rparr>
               ((bus_with []) \<lparr>regs := (\<lambda>r. 0x8000)\<rparr>))) = 0
   \<and> regs (snd (the (rda5807_resume \<lparr>ctrl_handler = [\<lparr>ctrl_id = V4L2_CID_AUDIO_MUTE, ctrl_val = 0\<rparr>]\<rparr>
               ((bus_with []) \<lparr>regs := (\<lambda>r. 0x8000)\<rparr>)))) 0x02 = 0x8001"
proof -
  let ?radio = "the (fst (snd (rda5807_i2c_probe host_ok (bus_with []))))"
  let ?m1 = "\<lparr>ctrl_id = V4L2_CID_AUDIO_MUTE, ctrl_val = 1\<rparr>"
  let ?m0 = "\<lparr>ctrl_id = V4L2_CID_AUDIO_MUTE, ctrl_val = 0\<rparr>"
  let ?b = "(bus_with []) \<lparr>regs := (\<lambda>r. 0x8000)\<rparr>"
  have a: "v4l2_ctrl_find (ctrl_handler ?radio) V4L2_CID_AUDIO_MUTE = Some ?m1"
    by (simp add: probe_example v4l2_ctrl_find_def)
  have b: "v4l2_ctrl_find (ctrl_handler \<lparr>ctrl_handler = [?m0]\<rparr>) V4L2_CID_AUDIO_MUTE = Some ?m0"
    by (simp add: v4l2_ctrl_find_def)
  from resume_follows_mute [OF a, of "bus_with []", THEN conjunct1]
  have c: "rda5807_resume ?radio (bus_with []) = Some (0, bus_with [])"
    by simp
  from resume_follows_mute [OF b, of ?b, THEN conjunct2]
  have d: "rda5807_resume \<lparr>ctrl_handler = [?m0]\<rparr> ?b
      = Some (rda5807_update_reg ?b RDA5807_REG_CTRL RDA5807_MASK_CTRL_ENABLE RDA5807_MASK_CTRL_ENABLE)"
    by simp
  have r: "completes 2 ?b" and w: "completes 1 (after_read ?b RDA5807_REG_CTRL)"
    by (simp_all add: completes_def after_read_def bus_with_def)
  have e: "fst (the (rda5807_resume \<lparr>ctrl_handler = [?m0]\<rparr> ?b)) = 0
     \<and> regs (snd (the (rda5807_resume \<lparr>ctrl_handler = [?m0]\<rparr> ?b))) 0x02 = 0x8001"
    unfolding d update_reg_ok [OF r w] by (simp add: ENABLE_eq)
  from a b c e show ?thesis by simp
qed

end
